theory Spec2Isabelle
  imports Complex_Main "HOL-Library.Product_Lexorder"
begin

section \<open>Data model\<close>

text \<open>
  The pipeline of \<^verbatim>\<open>airflow/dags/iot_temperature_processing.py\<close> works on data frames.
  A data frame is modelled as the list of its rows, in row order. Temperatures are the
  column \<^verbatim>\<open>temp\<close>; they are modelled as exact rationals, so every statement below is about
  the arithmetic the code asks for, not about the rounding of the machine's doubles.
  A calendar date (\<^verbatim>\<open>datetime.date\<close>) is the triple (year, month, day); the lexicographic
  order of triples is the chronological order.
\<close>

type_synonym date = "int \<times> int \<times> int"

record raw_reading =
  room_id :: string
  noted_date :: string
  temp :: rat
  out_in :: string

record filtered_reading = raw_reading +
  date :: date

text \<open>One row of \<^verbatim>\<open>daily_stats\<close>: the columns \<^verbatim>\<open>date\<close> and \<^verbatim>\<open>avg_temp\<close>.\<close>

record daily_stat =
  day :: date
  avg_temp :: rat

text \<open>
  The values pushed with \<^verbatim>\<open>xcom_push\<close>, one field per key; \<open>None\<close> is a key that was
  never pushed, for which \<^verbatim>\<open>xcom_pull\<close> returns Python's \<^verbatim>\<open>None\<close>.
\<close>

record xcom =
  total_rows :: "int option"
  filtered_rows :: "int option"
  outliers_removed :: "int option"
  p5 :: "rat option"
  p95 :: "rat option"
  cleaned_rows :: "int option"
  hottest_days :: "daily_stat list option"
  coldest_days :: "daily_stat list option"

text \<open>
  The files under \<^verbatim>\<open>PROCESSED_PATH\<close> and the XCom store of the run; \<open>None\<close> is a file
  that does not exist.
\<close>

record state =
  filtered_data_parquet :: "filtered_reading list option"
  cleaned_data_parquet :: "filtered_reading list option"
  hottest_days_csv :: "daily_stat list option"
  coldest_days_csv :: "daily_stat list option"
  processing_report_txt :: "string option"
  ti :: xcom

text \<open>
  The three \<^verbatim>\<open>AirflowException\<close>s of the source are told apart by their message: the one
  of \<^verbatim>\<open>load_and_filter_data\<close> carries \<^verbatim>\<open>df['out/in'].unique()\<close>. The other errors are the
  ones Python raises by itself in the modelled code.
\<close>

datatype message =
  No_records_after_filtering "string list"
| DataFrame_empty_after_filtering
| No_data_for_extreme_days

datatype error =
  AirflowException message
| FileNotFoundError
| TypeError
| ZeroDivisionError

definition empty_xcom :: xcom where
  "empty_xcom = \<lparr>total_rows = None, filtered_rows = None, outliers_removed = None,
     p5 = None, p95 = None, cleaned_rows = None, hottest_days = None, coldest_days = None\<rparr>"

definition empty_state :: state where
  "empty_state = \<lparr>filtered_data_parquet = None, cleaned_data_parquet = None,
     hottest_days_csv = None, coldest_days_csv = None, processing_report_txt = None,
     ti = empty_xcom\<rparr>"

section \<open>Stage 1: \<^verbatim>\<open>load_and_filter_data\<close>\<close>

text \<open>
  \<^verbatim>\<open>str.lower()\<close>: the letters A to Z go to a to z. Every other byte is left alone; the
  lower-casing of a character outside ASCII never yields the letters i or n alone, so the
  comparison with \<^verbatim>\<open>'in'\<close> is the same as on Python's code points.
\<close>

definition char_lower :: "char \<Rightarrow> char" where
  "char_lower c =
     (let n = (of_char c :: nat) in if 65 \<le> n \<and> n \<le> 90 then char_of (n + 32) else c)"

definition str_lower :: "string \<Rightarrow> string" where
  "str_lower s = map char_lower s"

text \<open>Line 28: \<^verbatim>\<open>df[df['out/in'].str.lower() == 'in']\<close>.\<close>

definition filter_out_in :: "raw_reading list \<Rightarrow> raw_reading list" where
  "filter_out_in df = filter (\<lambda>r. str_lower (out_in r) = ''in'') df"

text \<open>\<^verbatim>\<open>Series.unique()\<close>: the distinct values in order of first appearance.\<close>

fun unique :: "'a list \<Rightarrow> 'a list" where
  "unique [] = []"
| "unique (x # xs) = x # filter (\<lambda>y. y \<noteq> x) (unique xs)"

text \<open>
  Lines 36 to 42. \<^verbatim>\<open>pd.to_datetime(..., format='%d-%m-%Y %H:%M', errors='coerce').dt.date\<close>
  is a function of the library, taken as the parameter \<open>to_date\<close>: it gives the date of a
  string it can parse and \<open>None\<close> (\<^verbatim>\<open>NaT\<close>) for any other string, and never raises.
  \<^verbatim>\<open>dropna(subset=['date'])\<close> then removes the rows whose date is \<^verbatim>\<open>NaT\<close>.
\<close>

definition with_date :: "raw_reading \<Rightarrow> date \<Rightarrow> filtered_reading" where
  "with_date r d = raw_reading.extend r (filtered_reading.fields d)"

definition assign_date ::
  "(string \<Rightarrow> date option) \<Rightarrow> raw_reading list \<Rightarrow> (raw_reading \<times> date option) list" where
  "assign_date to_date df = map (\<lambda>r. (r, to_date (noted_date r))) df"

fun dropna_date :: "(raw_reading \<times> date option) list \<Rightarrow> filtered_reading list" where
  "dropna_date [] = []"
| "dropna_date ((r, None) # rs) = dropna_date rs"
| "dropna_date ((r, Some d) # rs) = with_date r d # dropna_date rs"

definition load_and_filter_data ::
  "(string \<Rightarrow> date option) \<Rightarrow> raw_reading list \<Rightarrow> state \<Rightarrow> error + state" where
  "load_and_filter_data to_date df st =
     (let df_filtered = filter_out_in df in
      if length df_filtered = 0
      then Inl (AirflowException (No_records_after_filtering (unique (map out_in df))))
      else
        let df_filtered = dropna_date (assign_date to_date df_filtered);
            st = st\<lparr>filtered_data_parquet := Some df_filtered\<rparr>;
            st = st\<lparr>ti := (ti st)\<lparr>filtered_rows := Some (int (length df_filtered))\<rparr>\<rparr>;
            st = st\<lparr>ti := (ti st)\<lparr>total_rows := Some (int (length df))\<rparr>\<rparr>
        in Inr st)"

text \<open>
  Modelled from the spec: the date parser is the library's \<^verbatim>\<open>pd.to_datetime\<close>, which is
  not part of the repository. The data model gives \<^verbatim>\<open>noted_date\<close> the format
  \<^verbatim>\<open>DD-MM-YYYY HH:MM\<close>; \<open>strptime_date\<close> reads exactly the strings of that shape (16
  characters, fields zero-padded) that name a calendar day and a time of day, and is
  \<open>None\<close> on every other string. It is used to run the stages on concrete inputs; every
  property below is stated for an arbitrary \<open>to_date\<close>.
\<close>

definition digit_val :: "char \<Rightarrow> int option" where
  "digit_val c =
     (let n = (of_char c :: int) in if 48 \<le> n \<and> n \<le> 57 then Some (n - 48) else None)"

fun number_of :: "string \<Rightarrow> int \<Rightarrow> int option" where
  "number_of [] acc = Some acc"
| "number_of (c # cs) acc =
     (case digit_val c of None \<Rightarrow> None | Some v \<Rightarrow> number_of cs (10 * acc + v))"

definition is_leap :: "int \<Rightarrow> bool" where
  "is_leap y = (y mod 4 = 0 \<and> (y mod 100 \<noteq> 0 \<or> y mod 400 = 0))"

definition days_in_month :: "int \<Rightarrow> int \<Rightarrow> int" where
  "days_in_month y m =
     (if m = 2 then (if is_leap y then 29 else 28)
      else if m = 4 \<or> m = 6 \<or> m = 9 \<or> m = 11 then 30 else 31)"

definition strptime_date :: "string \<Rightarrow> date option" where
  "strptime_date s =
     (if length s = 16 \<and> s ! 2 = CHR ''-'' \<and> s ! 5 = CHR ''-'' \<and> s ! 10 = CHR '' ''
         \<and> s ! 13 = CHR '':''
      then
        (case (number_of (take 2 s) 0, number_of (take 2 (drop 3 s)) 0,
               number_of (take 4 (drop 6 s)) 0, number_of (take 2 (drop 11 s)) 0,
               number_of (take 2 (drop 14 s)) 0) of
           (Some d, Some m, Some y, Some H, Some M) \<Rightarrow>
             if 1 \<le> y \<and> 1 \<le> m \<and> m \<le> 12 \<and> 1 \<le> d \<and> d \<le> days_in_month y m
                \<and> H \<le> 23 \<and> M \<le> 59
             then Some (y, m, d) else None
         | _ \<Rightarrow> None)
      else None)"

section \<open>Stage 2: \<^verbatim>\<open>clean_temperature\<close>\<close>

text \<open>
  \<^verbatim>\<open>Series.quantile(q)\<close> with the default \<^verbatim>\<open>interpolation='linear'\<close> is a function of the
  library. It is modelled by the steps the library takes: sort the values, take the
  virtual index \<open>(n - 1) * q\<close>, its floor as the previous index and the one after as the
  next index, both set to the last index when the virtual index reaches it and to the
  first when it is negative, and interpolate between the two values with the fraction
  \<open>gamma\<close>. The interpolation has two branches that are two ways to compute the same
  value. On the empty list the library gives \<^verbatim>\<open>NaN\<close>; \<open>quantile\<close> has no meaning there
  and is called only behind the guard of line 57.
\<close>

definition lerp :: "rat \<Rightarrow> rat \<Rightarrow> rat \<Rightarrow> rat" where
  "lerp a b t = (if t \<ge> 1 / 2 then b - (b - a) * (1 - t) else a + (b - a) * t)"

definition quantile :: "rat \<Rightarrow> rat list \<Rightarrow> rat" where
  "quantile q values =
     (let arr = sort values;
          n = length arr;
          virtual_index = of_nat (n - 1) * q;
          previous_index = nat \<lfloor>virtual_index\<rfloor>;
          next_index = previous_index + 1;
          gamma = virtual_index - of_int \<lfloor>virtual_index\<rfloor>;
          above = (virtual_index \<ge> of_nat (n - 1));
          below = (virtual_index < 0);
          previous_index = (if below then 0 else if above then n - 1 else previous_index);
          next_index = (if below then 0 else if above then n - 1 else next_index)
      in lerp (arr ! previous_index) (arr ! next_index) gamma)"

text \<open>
  The percentile as the spec words it: the value at the fractional rank \<open>p * (n - 1)\<close> of
  the sorted sample, interpolated linearly between the two bracketing order statistics.
\<close>

definition value_at_rank :: "rat list \<Rightarrow> rat \<Rightarrow> rat" where
  "value_at_rank s rank =
     (let lo = nat \<lfloor>rank\<rfloor>; hi = nat \<lceil>rank\<rceil>
      in s ! lo + (rank - of_nat lo) * (s ! hi - s ! lo))"

definition percentile_linear :: "rat \<Rightarrow> rat list \<Rightarrow> rat" where
  "percentile_linear p xs = value_at_rank (sort xs) (p * of_nat (length xs - 1))"

text \<open>
  Lines 53 to 77. \<^verbatim>\<open>pct_removed\<close> is only printed and is left out; its division is by
  \<^verbatim>\<open>len(df)\<close>, which is not zero behind the guard.
\<close>

definition clean_temperature :: "state \<Rightarrow> error + state" where
  "clean_temperature st =
     (case filtered_data_parquet st of
        None \<Rightarrow> Inl FileNotFoundError
      | Some df \<Rightarrow>
          if length df = 0 then Inl (AirflowException DataFrame_empty_after_filtering)
          else
            let p5_val = quantile (5 / 100) (map temp df);
                p95_val = quantile (95 / 100) (map temp df);
                df_clean = filter (\<lambda>r. temp r \<ge> p5_val \<and> temp r \<le> p95_val) df;
                outliers = int (length df) - int (length df_clean);
                st = st\<lparr>ti := (ti st)\<lparr>outliers_removed := Some outliers\<rparr>\<rparr>;
                st = st\<lparr>ti := (ti st)\<lparr>p5 := Some p5_val\<rparr>\<rparr>;
                st = st\<lparr>ti := (ti st)\<lparr>p95 := Some p95_val\<rparr>\<rparr>;
                st = st\<lparr>ti := (ti st)\<lparr>cleaned_rows := Some (int (length df_clean))\<rparr>\<rparr>;
                st = st\<lparr>cleaned_data_parquet := Some df_clean\<rparr>
            in Inr st)"

section \<open>Stage 3: \<^verbatim>\<open>calculate_extreme_days\<close>\<close>

text \<open>
  \<^verbatim>\<open>df.groupby('date')['temp'].mean().reset_index()\<close>: one row per distinct date, in
  ascending order of the dates, with the arithmetic mean of the temperatures of that date.
\<close>

definition mean :: "rat list \<Rightarrow> rat" where
  "mean xs = sum_list xs / of_nat (length xs)"

definition groupby_date_mean :: "filtered_reading list \<Rightarrow> daily_stat list" where
  "groupby_date_mean df =
     map (\<lambda>d. \<lparr>day = d, avg_temp = mean (map temp (filter (\<lambda>r. date r = d) df))\<rparr>)
       (sort (unique (map date df)))"

text \<open>
  \<^verbatim>\<open>nlargest(n, 'avg_temp')\<close> and \<^verbatim>\<open>nsmallest(n, 'avg_temp')\<close> with the default
  \<^verbatim>\<open>keep='first'\<close>: the first \<open>n\<close> rows in descending (ascending) order of the column, rows
  with equal values in their order of appearance.
\<close>

definition nlargest :: "nat \<Rightarrow> daily_stat list \<Rightarrow> daily_stat list" where
  "nlargest n daily_stats = take n (sort_key (\<lambda>r. - avg_temp r) daily_stats)"

definition nsmallest :: "nat \<Rightarrow> daily_stat list \<Rightarrow> daily_stat list" where
  "nsmallest n daily_stats = take n (sort_key avg_temp daily_stats)"

definition calculate_extreme_days :: "state \<Rightarrow> error + state" where
  "calculate_extreme_days st =
     (case cleaned_data_parquet st of
        None \<Rightarrow> Inl FileNotFoundError
      | Some df \<Rightarrow>
          if length df = 0 then Inl (AirflowException No_data_for_extreme_days)
          else
            let daily_stats = groupby_date_mean df;
                hottest = nlargest 5 daily_stats;
                coldest = nsmallest 5 daily_stats;
                st = st\<lparr>hottest_days_csv := Some hottest\<rparr>;
                st = st\<lparr>coldest_days_csv := Some coldest\<rparr>;
                st = st\<lparr>ti := (ti st)\<lparr>hottest_days := Some hottest\<rparr>\<rparr>;
                st = st\<lparr>ti := (ti st)\<lparr>coldest_days := Some coldest\<rparr>\<rparr>
            in Inr st)"

section \<open>Stage 4: \<^verbatim>\<open>generate_report\<close>\<close>

subsection \<open>The fixed text of the report\<close>

text \<open>
  The literal parts of the f-string of lines 119 to 147, in order, as the bytes of their
  UTF-8 encoding (the captions are in Russian).
\<close>

text \<open>A rule of 42 equals signs, the title (REPORT ON THE PROCESSING OF IOT TEMPERATURE DATA), the rule again, and the caption of the processing date.\<close>

definition lit_header :: string where
  "lit_header =
     [CHR 0x0A] @ ''=========================================='' @
     [CHR 0x0A, CHR 0xD0, CHR 0x9E, CHR 0xD0, CHR 0xA2, CHR 0xD0, CHR 0xA7, CHR 0xD0] @
     [CHR 0x81, CHR 0xD0, CHR 0xA2] @ '' '' @ [CHR 0xD0, CHR 0x9F, CHR 0xD0, CHR 0x9E] @
     '' '' @ [CHR 0xD0, CHR 0x9E, CHR 0xD0, CHR 0x91, CHR 0xD0, CHR 0xA0, CHR 0xD0, CHR 0x90] @
     [CHR 0xD0, CHR 0x91, CHR 0xD0, CHR 0x9E, CHR 0xD0, CHR 0xA2, CHR 0xD0, CHR 0x9A] @
     [CHR 0xD0, CHR 0x95] @ '' '' @
     [CHR 0xD0, CHR 0x94, CHR 0xD0, CHR 0x90, CHR 0xD0, CHR 0x9D, CHR 0xD0, CHR 0x9D] @
     [CHR 0xD0, CHR 0xAB, CHR 0xD0, CHR 0xA5] @ '' IOT-'' @
     [CHR 0xD0, CHR 0xA2, CHR 0xD0, CHR 0x95, CHR 0xD0, CHR 0x9C, CHR 0xD0, CHR 0x9F] @
     [CHR 0xD0, CHR 0x95, CHR 0xD0, CHR 0xA0, CHR 0xD0, CHR 0x90, CHR 0xD0, CHR 0xA2] @
     [CHR 0xD0, CHR 0xA3, CHR 0xD0, CHR 0xA0, CHR 0xD0, CHR 0xAB, CHR 0x0A] @
     ''=========================================='' @
     [CHR 0x0A, CHR 0xD0, CHR 0x94, CHR 0xD0, CHR 0xB0, CHR 0xD1, CHR 0x82, CHR 0xD0] @
     [CHR 0xB0] @ '' '' @
     [CHR 0xD0, CHR 0xBE, CHR 0xD0, CHR 0xB1, CHR 0xD1, CHR 0x80, CHR 0xD0, CHR 0xB0] @
     [CHR 0xD0, CHR 0xB1, CHR 0xD0, CHR 0xBE, CHR 0xD1, CHR 0x82, CHR 0xD0, CHR 0xBA] @
     [CHR 0xD0, CHR 0xB8] @ '': ''"

text \<open>The heading of the source data and the caption of the total number of records.\<close>

definition lit_total :: string where
  "lit_total =
     [CHR 0x0A, CHR 0x0A, CHR 0xD0, CHR 0x98, CHR 0xD1, CHR 0x81, CHR 0xD1, CHR 0x85] @
     [CHR 0xD0, CHR 0xBE, CHR 0xD0, CHR 0xB4, CHR 0xD0, CHR 0xBD, CHR 0xD1, CHR 0x8B] @
     [CHR 0xD0, CHR 0xB5] @ '' '' @
     [CHR 0xD0, CHR 0xB4, CHR 0xD0, CHR 0xB0, CHR 0xD0, CHR 0xBD, CHR 0xD0, CHR 0xBD] @
     [CHR 0xD1, CHR 0x8B, CHR 0xD0, CHR 0xB5] @ '':'' @ [CHR 0x0A] @ ''  - '' @
     [CHR 0xD0, CHR 0x92, CHR 0xD1, CHR 0x81, CHR 0xD0, CHR 0xB5, CHR 0xD0, CHR 0xB3] @
     [CHR 0xD0, CHR 0xBE] @ '' '' @
     [CHR 0xD0, CHR 0xB7, CHR 0xD0, CHR 0xB0, CHR 0xD0, CHR 0xBF, CHR 0xD0, CHR 0xB8] @
     [CHR 0xD1, CHR 0x81, CHR 0xD0, CHR 0xB5, CHR 0xD0, CHR 0xB9] @ '': ''"

text \<open>The caption of the records left after filtering (out/in = 'In').\<close>

definition lit_filtered :: string where
  "lit_filtered =
     [CHR 0x0A] @ ''  - '' @
     [CHR 0xD0, CHR 0x97, CHR 0xD0, CHR 0xB0, CHR 0xD0, CHR 0xBF, CHR 0xD0, CHR 0xB8] @
     [CHR 0xD1, CHR 0x81, CHR 0xD0, CHR 0xB5, CHR 0xD0, CHR 0xB9] @ '' '' @
     [CHR 0xD0, CHR 0xBF, CHR 0xD0, CHR 0xBE, CHR 0xD1, CHR 0x81, CHR 0xD0, CHR 0xBB] @
     [CHR 0xD0, CHR 0xB5] @ '' '' @
     [CHR 0xD1, CHR 0x84, CHR 0xD0, CHR 0xB8, CHR 0xD0, CHR 0xBB, CHR 0xD1, CHR 0x8C] @
     [CHR 0xD1, CHR 0x82, CHR 0xD1, CHR 0x80, CHR 0xD0, CHR 0xB0, CHR 0xD1, CHR 0x86] @
     [CHR 0xD0, CHR 0xB8, CHR 0xD0, CHR 0xB8] @ '' (out/in = '' @ [CHR 0x27] @ ''In'' @
     [CHR 0x27] @ ''): ''"

text \<open>The caption of the percentage filtered.\<close>

definition lit_percent :: string where
  "lit_percent =
     [CHR 0x0A] @ ''  - '' @
     [CHR 0xD0, CHR 0x9F, CHR 0xD1, CHR 0x80, CHR 0xD0, CHR 0xBE, CHR 0xD1, CHR 0x86] @
     [CHR 0xD0, CHR 0xB5, CHR 0xD0, CHR 0xBD, CHR 0xD1, CHR 0x82] @ '' '' @
     [CHR 0xD0, CHR 0xBE, CHR 0xD1, CHR 0x82, CHR 0xD1, CHR 0x84, CHR 0xD0, CHR 0xB8] @
     [CHR 0xD0, CHR 0xBB, CHR 0xD1, CHR 0x8C, CHR 0xD1, CHR 0x82, CHR 0xD1, CHR 0x80] @
     [CHR 0xD0, CHR 0xBE, CHR 0xD0, CHR 0xB2, CHR 0xD0, CHR 0xB0, CHR 0xD0, CHR 0xBD] @
     [CHR 0xD0, CHR 0xBD, CHR 0xD1, CHR 0x8B, CHR 0xD1, CHR 0x85] @ '': ''"

text \<open>The percent sign, the heading of the temperature cleaning and the caption of the 5th percentile.\<close>

definition lit_p5 :: string where
  "lit_p5 =
     ''%'' @ [CHR 0x0A, CHR 0x0A, CHR 0xD0, CHR 0x9E, CHR 0xD1, CHR 0x87, CHR 0xD0, CHR 0xB8] @
     [CHR 0xD1, CHR 0x81, CHR 0xD1, CHR 0x82, CHR 0xD0, CHR 0xBA, CHR 0xD0, CHR 0xB0] @ '' '' @
     [CHR 0xD1, CHR 0x82, CHR 0xD0, CHR 0xB5, CHR 0xD0, CHR 0xBC, CHR 0xD0, CHR 0xBF] @
     [CHR 0xD0, CHR 0xB5, CHR 0xD1, CHR 0x80, CHR 0xD0, CHR 0xB0, CHR 0xD1, CHR 0x82] @
     [CHR 0xD1, CHR 0x83, CHR 0xD1, CHR 0x80, CHR 0xD1, CHR 0x8B] @ '':'' @ [CHR 0x0A] @
     ''  - 5-'' @ [CHR 0xD0, CHR 0xB9] @ '' '' @
     [CHR 0xD0, CHR 0xBF, CHR 0xD0, CHR 0xB5, CHR 0xD1, CHR 0x80, CHR 0xD1, CHR 0x86] @
     [CHR 0xD0, CHR 0xB5, CHR 0xD0, CHR 0xBD, CHR 0xD1, CHR 0x82, CHR 0xD0, CHR 0xB8] @
     [CHR 0xD0, CHR 0xBB, CHR 0xD1, CHR 0x8C] @ '': ''"

text \<open>The unit and the caption of the 95th percentile.\<close>

definition lit_p95 :: string where
  "lit_p95 =
     [CHR 0xC2, CHR 0xB0] @ ''C'' @ [CHR 0x0A] @ ''  - 95-'' @ [CHR 0xD0, CHR 0xB9] @ '' '' @
     [CHR 0xD0, CHR 0xBF, CHR 0xD0, CHR 0xB5, CHR 0xD1, CHR 0x80, CHR 0xD1, CHR 0x86] @
     [CHR 0xD0, CHR 0xB5, CHR 0xD0, CHR 0xBD, CHR 0xD1, CHR 0x82, CHR 0xD0, CHR 0xB8] @
     [CHR 0xD0, CHR 0xBB, CHR 0xD1, CHR 0x8C] @ '': ''"

text \<open>The unit and the caption of the outliers removed.\<close>

definition lit_outliers :: string where
  "lit_outliers =
     [CHR 0xC2, CHR 0xB0] @ ''C'' @ [CHR 0x0A] @ ''  - '' @
     [CHR 0xD0, CHR 0xA3, CHR 0xD0, CHR 0xB4, CHR 0xD0, CHR 0xB0, CHR 0xD0, CHR 0xBB] @
     [CHR 0xD0, CHR 0xB5, CHR 0xD0, CHR 0xBD, CHR 0xD0, CHR 0xBE] @ '' '' @
     [CHR 0xD0, CHR 0xB2, CHR 0xD1, CHR 0x8B, CHR 0xD0, CHR 0xB1, CHR 0xD1, CHR 0x80] @
     [CHR 0xD0, CHR 0xBE, CHR 0xD1, CHR 0x81, CHR 0xD0, CHR 0xBE, CHR 0xD0, CHR 0xB2] @ '': ''"

text \<open>The caption of the records left after cleaning.\<close>

definition lit_cleaned :: string where
  "lit_cleaned =
     [CHR 0x0A] @ ''  - '' @
     [CHR 0xD0, CHR 0x9E, CHR 0xD1, CHR 0x81, CHR 0xD1, CHR 0x82, CHR 0xD0, CHR 0xB0] @
     [CHR 0xD0, CHR 0xBB, CHR 0xD0, CHR 0xBE, CHR 0xD1, CHR 0x81, CHR 0xD1, CHR 0x8C] @ '' '' @
     [CHR 0xD0, CHR 0xB7, CHR 0xD0, CHR 0xB0, CHR 0xD0, CHR 0xBF, CHR 0xD0, CHR 0xB8] @
     [CHR 0xD1, CHR 0x81, CHR 0xD0, CHR 0xB5, CHR 0xD0, CHR 0xB9] @ '' '' @
     [CHR 0xD0, CHR 0xBF, CHR 0xD0, CHR 0xBE, CHR 0xD1, CHR 0x81, CHR 0xD0, CHR 0xBB] @
     [CHR 0xD0, CHR 0xB5] @ '' '' @
     [CHR 0xD0, CHR 0xBE, CHR 0xD1, CHR 0x87, CHR 0xD0, CHR 0xB8, CHR 0xD1, CHR 0x81] @
     [CHR 0xD1, CHR 0x82, CHR 0xD0, CHR 0xBA, CHR 0xD0, CHR 0xB8] @ '': ''"

text \<open>The heading of the extreme days and the caption of the hottest ones.\<close>

definition lit_hottest :: string where
  "lit_hottest =
     [CHR 0x0A, CHR 0x0A, CHR 0xD0, CHR 0xAD, CHR 0xD0, CHR 0xBA, CHR 0xD1, CHR 0x81] @
     [CHR 0xD1, CHR 0x82, CHR 0xD1, CHR 0x80, CHR 0xD0, CHR 0xB5, CHR 0xD0, CHR 0xBC] @
     [CHR 0xD0, CHR 0xB0, CHR 0xD0, CHR 0xBB, CHR 0xD1, CHR 0x8C, CHR 0xD0, CHR 0xBD] @
     [CHR 0xD1, CHR 0x8B, CHR 0xD0, CHR 0xB5] @ '' '' @
     [CHR 0xD0, CHR 0xB4, CHR 0xD0, CHR 0xBD, CHR 0xD0, CHR 0xB8] @ '':'' @ [CHR 0x0A] @
     ''  '' @
     [CHR 0xD0, CHR 0xA1, CHR 0xD0, CHR 0xB0, CHR 0xD0, CHR 0xBC, CHR 0xD1, CHR 0x8B] @
     [CHR 0xD0, CHR 0xB5] @ '' '' @
     [CHR 0xD0, CHR 0xB6, CHR 0xD0, CHR 0xB0, CHR 0xD1, CHR 0x80, CHR 0xD0, CHR 0xBA] @
     [CHR 0xD0, CHR 0xB8, CHR 0xD0, CHR 0xB5] @ '':'' @ [CHR 0x0A]"

text \<open>The caption of the coldest ones.\<close>

definition lit_coldest :: string where
  "lit_coldest =
     [CHR 0x0A, CHR 0x0A] @ ''  '' @
     [CHR 0xD0, CHR 0xA1, CHR 0xD0, CHR 0xB0, CHR 0xD0, CHR 0xBC, CHR 0xD1, CHR 0x8B] @
     [CHR 0xD0, CHR 0xB5] @ '' '' @
     [CHR 0xD1, CHR 0x85, CHR 0xD0, CHR 0xBE, CHR 0xD0, CHR 0xBB, CHR 0xD0, CHR 0xBE] @
     [CHR 0xD0, CHR 0xB4, CHR 0xD0, CHR 0xBD, CHR 0xD1, CHR 0x8B, CHR 0xD0, CHR 0xB5] @ '':'' @
     [CHR 0x0A]"

text \<open>The heading of the saved results.\<close>

definition lit_saved :: string where
  "lit_saved =
     [CHR 0x0A, CHR 0x0A, CHR 0xD0, CHR 0xA0, CHR 0xD0, CHR 0xB5, CHR 0xD0, CHR 0xB7] @
     [CHR 0xD1, CHR 0x83, CHR 0xD0, CHR 0xBB, CHR 0xD1, CHR 0x8C, CHR 0xD1, CHR 0x82] @
     [CHR 0xD0, CHR 0xB0, CHR 0xD1, CHR 0x82, CHR 0xD1, CHR 0x8B] @ '' '' @
     [CHR 0xD1, CHR 0x81, CHR 0xD0, CHR 0xBE, CHR 0xD1, CHR 0x85, CHR 0xD1, CHR 0x80] @
     [CHR 0xD0, CHR 0xB0, CHR 0xD0, CHR 0xBD, CHR 0xD0, CHR 0xB5, CHR 0xD0, CHR 0xBD] @
     [CHR 0xD1, CHR 0x8B] @ '' '' @ [CHR 0xD0, CHR 0xB2] @ '':'' @ [CHR 0x0A] @ ''  - ''"

text \<open>The separator between the two paths.\<close>

definition lit_sep :: string where
  "lit_sep =
     [CHR 0x0A] @ ''  - ''"

text \<open>The closing rule.\<close>

definition lit_footer :: string where
  "lit_footer =
     [CHR 0x0A] @ ''=========================================='' @ [CHR 0x0A]"

text \<open>A dash between spaces.\<close>

definition lit_dash :: string where
  "lit_dash =
     '' '' @ [CHR 0xE2, CHR 0x80, CHR 0x94] @ '' ''"

text \<open>The unit, degrees Celsius.\<close>

definition lit_degree_C :: string where
  "lit_degree_C =
     [CHR 0xC2, CHR 0xB0] @ ''C''"

definition HOT_DAYS_PATH :: string where
  "HOT_DAYS_PATH = ''/opt/airflow/processed/hottest_days.csv''"

definition COLD_DAYS_PATH :: string where
  "COLD_DAYS_PATH = ''/opt/airflow/processed/coldest_days.csv''"

subsection \<open>Formatting of values\<close>

text \<open>The decimal digits of an integer that is not negative.\<close>

definition digit_char :: "int \<Rightarrow> char" where
  "digit_char d = char_of (48 + d)"

function show_nat :: "int \<Rightarrow> string" where
  "show_nat n = (if n < 10 then [digit_char n] else show_nat (n div 10) @ [digit_char (n mod 10)])"
  by pat_completeness auto
termination
  by (relation "measure nat") auto

text \<open>\<^verbatim>\<open>str\<close> of an integer, and of the \<^verbatim>\<open>None\<close> that \<^verbatim>\<open>xcom_pull\<close> gives for a missing key.\<close>

definition str_int :: "int \<Rightarrow> string" where
  "str_int i = (if i < 0 then ''-'' @ show_nat (- i) else show_nat i)"

definition str_int_option :: "int option \<Rightarrow> string" where
  "str_int_option v = (case v of None \<Rightarrow> ''None'' | Some i \<Rightarrow> str_int i)"

text \<open>
  The format \<^verbatim>\<open>:.2f\<close>: the sign, the integer part, a point and two digits, the value
  rounded to the nearest hundredth, a tie to the even one.
\<close>

definition round_half_even :: "rat \<Rightarrow> int" where
  "round_half_even y =
     (let f = \<lfloor>y\<rfloor>; r = y - of_int f
      in if r < 1 / 2 then f else if r > 1 / 2 then f + 1 else if even f then f else f + 1)"

definition format_2f :: "rat \<Rightarrow> string" where
  "format_2f x =
     (let n = round_half_even (\<bar>x\<bar> * 100)
      in (if x < 0 then ''-'' else []) @ show_nat (n div 100) @ ''.''
           @ [digit_char (n mod 100 div 10), digit_char (n mod 10)])"

text \<open>
  Python's \<^verbatim>\<open>float\<close> is the IEEE 754 double: a sign and a magnitude on the grid of the
  multiples of \<open>2 ^ q\<close>, where \<open>q\<close> is 52 below the binary exponent of the value and at
  least \<open>- 1074\<close>. An operation gives the grid point nearest to the exact result, a tie
  going to the even multiple. A \<open>double\<close> is modelled by its sign bit and the exact
  rational value of its magnitude. Results from \<open>2 ^ 1024\<close> on are too large for a double
  (Python raises \<^verbatim>\<open>OverflowError\<close> or gives \<^verbatim>\<open>inf\<close>); row counts are far from there and
  the model does not tell these results apart.
\<close>

function bit_length :: "int \<Rightarrow> int" where
  "bit_length n = (if n \<le> 0 then 0 else 1 + bit_length (n div 2))"
  by pat_completeness auto
termination
  by (relation "measure nat") auto

declare bit_length.simps [simp del]

definition pow2 :: "int \<Rightarrow> rat" where
  "pow2 k = (if 0 \<le> k then 2 ^ nat k else 1 / 2 ^ nat (- k))"

text \<open>The binary exponent of a positive rational \<open>x\<close>: \<open>2 ^ e \<le> x < 2 ^ (e + 1)\<close>.\<close>

definition floor_log2 :: "rat \<Rightarrow> int" where
  "floor_log2 x =
     (case quotient_of x of (a, b) \<Rightarrow>
        let k = bit_length a - bit_length b in if pow2 k \<le> x then k else k - 1)"

text \<open>The magnitude of the double nearest to a rational that is not negative.\<close>

definition round_double :: "rat \<Rightarrow> rat" where
  "round_double x =
     (if x = 0 then 0
      else let q = max (floor_log2 x - 52) (- 1074)
           in of_int (round_half_even (x / pow2 q)) * pow2 q)"

datatype double = Double bool rat

text \<open>
  \<^verbatim>\<open>a / b\<close> on integers (the divisor not zero) is the double nearest to the exact
  quotient; \<^verbatim>\<open>float(i)\<close> is the double nearest to the integer; \<^verbatim>\<open>x * y\<close> on doubles is the
  double nearest to the exact product. The sign bit is set for a negative result, also
  when the magnitude is zero.
\<close>

definition int_truediv :: "int \<Rightarrow> int \<Rightarrow> double" where
  "int_truediv a b = Double ((a < 0) \<noteq> (b < 0)) (round_double \<bar>of_int a / of_int b\<bar>)"

definition float_of_int :: "int \<Rightarrow> double" where
  "float_of_int i = Double (i < 0) (round_double \<bar>of_int i\<bar>)"

fun float_mul :: "double \<Rightarrow> double \<Rightarrow> double" where
  "float_mul (Double s m) (Double s' m') = Double (s \<noteq> s') (round_double (m * m'))"

text \<open>The format \<^verbatim>\<open>:.2f\<close> of a double: the sign bit prints as a minus sign.\<close>

fun format_2f_double :: "double \<Rightarrow> string" where
  "format_2f_double (Double s m) = (if s then ''-'' else []) @ format_2f m"

text \<open>\<^verbatim>\<open>str\<close> of a \<^verbatim>\<open>datetime.date\<close>: \<^verbatim>\<open>YYYY-MM-DD\<close>, zero-padded.\<close>

definition zfill :: "nat \<Rightarrow> string \<Rightarrow> string" where
  "zfill w s = replicate (w - length s) (CHR ''0'') @ s"

definition str_date :: "date \<Rightarrow> string" where
  "str_date d =
     (case d of (y, m, dd) \<Rightarrow>
        zfill 4 (show_nat y) @ ''-'' @ zfill 2 (show_nat m) @ ''-'' @ zfill 2 (show_nat dd))"

text \<open>\<^verbatim>\<open>sep.join(lines)\<close>.\<close>

fun join :: "string \<Rightarrow> string list \<Rightarrow> string" where
  "join sep [] = []"
| "join sep [l] = l"
| "join sep (l # ls) = l @ sep @ join sep ls"

text \<open>Lines 138 and 141: one line per day, numbered from 1.\<close>

definition day_line :: "nat \<times> daily_stat \<Rightarrow> string" where
  "day_line p =
     (case p of (i, d) \<Rightarrow>
        ''    '' @ show_nat (int i + 1) @ ''. '' @ str_date (day d) @ lit_dash
          @ format_2f (avg_temp d) @ lit_degree_C)"

definition day_lines :: "daily_stat list \<Rightarrow> string" where
  "day_lines days = join [CHR 0x0A] (map day_line (enumerate 0 days))"

subsection \<open>The report\<close>

text \<open>
  \<^verbatim>\<open>(filtered_rows/total_rows)*100\<close>: a \<^verbatim>\<open>TypeError\<close> when an operand is \<^verbatim>\<open>None\<close>, a
  \<^verbatim>\<open>ZeroDivisionError\<close> when the divisor is zero; otherwise the division of the two
  integers gives a double, which is multiplied by the double of 100.
\<close>

definition percent_filtered :: "int option \<Rightarrow> int option \<Rightarrow> error + double" where
  "percent_filtered filtered_val total_val =
     (case filtered_val of
        None \<Rightarrow> Inl TypeError
      | Some f \<Rightarrow>
          (case total_val of
             None \<Rightarrow> Inl TypeError
           | Some t \<Rightarrow>
               if t = 0 then Inl ZeroDivisionError
               else Inr (float_mul (int_truediv f t) (float_of_int 100))))"

text \<open>
  The f-string, its fields evaluated from left to right. \<open>now\<close> is the text of
  \<^verbatim>\<open>datetime.now().strftime('%Y-%m-%d %H:%M:%S')\<close>. Formatting \<^verbatim>\<open>None\<close> with \<^verbatim>\<open>:.2f\<close> and
  iterating over \<^verbatim>\<open>None\<close> raise a \<^verbatim>\<open>TypeError\<close>; a field without a format prints
  \<^verbatim>\<open>None\<close> as text.
\<close>

definition render_report :: "string \<Rightarrow> xcom \<Rightarrow> error + string" where
  "render_report now x =
     (case percent_filtered (filtered_rows x) (total_rows x) of
        Inl e \<Rightarrow> Inl e
      | Inr pct \<Rightarrow>
     (case p5 x of
        None \<Rightarrow> Inl TypeError
      | Some p5_val \<Rightarrow>
     (case p95 x of
        None \<Rightarrow> Inl TypeError
      | Some p95_val \<Rightarrow>
     (case hottest_days x of
        None \<Rightarrow> Inl TypeError
      | Some hottest \<Rightarrow>
     (case coldest_days x of
        None \<Rightarrow> Inl TypeError
      | Some coldest \<Rightarrow>
          Inr (lit_header @ now
             @ lit_total @ str_int_option (total_rows x)
             @ lit_filtered @ str_int_option (filtered_rows x)
             @ lit_percent @ format_2f_double pct
             @ lit_p5 @ format_2f p5_val
             @ lit_p95 @ format_2f p95_val
             @ lit_outliers @ str_int_option (outliers_removed x)
             @ lit_cleaned @ str_int_option (cleaned_rows x)
             @ lit_hottest @ day_lines hottest
             @ lit_coldest @ day_lines coldest
             @ lit_saved @ HOT_DAYS_PATH
             @ lit_sep @ COLD_DAYS_PATH
             @ lit_footer))))))"

definition generate_report :: "string \<Rightarrow> state \<Rightarrow> error + state" where
  "generate_report now st =
     (case render_report now (ti st) of
        Inl e \<Rightarrow> Inl e
      | Inr report \<Rightarrow> Inr (st\<lparr>processing_report_txt := Some report\<rparr>))"

section \<open>The DAG: \<^verbatim>\<open>t1 >> t2 >> t3 >> t4\<close>\<close>

text \<open>The four tasks in order; a task that raises stops the run.\<close>

definition dag ::
  "(string \<Rightarrow> date option) \<Rightarrow> string \<Rightarrow> raw_reading list \<Rightarrow> state \<Rightarrow> error + state" where
  "dag to_date now df st =
     (case load_and_filter_data to_date df st of
        Inl e \<Rightarrow> Inl e
      | Inr st1 \<Rightarrow>
     (case clean_temperature st1 of
        Inl e \<Rightarrow> Inl e
      | Inr st2 \<Rightarrow>
     (case calculate_extreme_days st2 of
        Inl e \<Rightarrow> Inl e
      | Inr st3 \<Rightarrow> generate_report now st3)))"

text \<open>\<^verbatim>\<open>needle in haystack\<close> on strings.\<close>

fun starts_with :: "string \<Rightarrow> string \<Rightarrow> bool" where
  "starts_with [] s = True"
| "starts_with (p # ps) [] = False"
| "starts_with (p # ps) (c # cs) = (p = c \<and> starts_with ps cs)"

fun contains :: "string \<Rightarrow> string \<Rightarrow> bool" where
  "contains needle [] = (needle = [])"
| "contains needle (c # cs) = (starts_with needle (c # cs) \<or> contains needle cs)"

section \<open>Example inputs\<close>

definition reading :: "string \<Rightarrow> rat \<Rightarrow> string \<Rightarrow> raw_reading" where
  "reading nd t oi = \<lparr>room_id = ''Room Admin'', noted_date = nd, temp = t, out_in = oi\<rparr>"

text \<open>
  Eight raw rows: one is an outdoor reading, one has a date in another format, and of the
  six others the coldest and the hottest lie outside the percentile band.
\<close>

definition example_readings :: "raw_reading list" where
  "example_readings =
     [reading ''01-01-2026 10:00'' 10 ''In'',
      reading ''01-01-2026 11:00'' 20 ''in'',
      reading ''01-01-2026 12:00'' 23 ''In'',
      reading ''02-01-2026 10:00'' 22 ''IN'',
      reading ''03-01-2026 10:00'' 24 ''In'',
      reading ''03-01-2026 12:00'' 40 ''In'',
      reading ''01-01-2026 12:00'' 99 ''Out'',
      reading ''2026-01-04 10:00'' 21 ''In'']"

text \<open>The scenario of the spec: two indoor rows and an outdoor one.\<close>

definition scenario_readings :: "raw_reading list" where
  "scenario_readings =
     [reading ''01-01-2026 10:00'' 30 ''In'',
      reading ''01-01-2026 11:00'' 32 ''in'',
      reading ''01-01-2026 12:00'' 99 ''Out'']"

text \<open>Only outdoor rows.\<close>

definition outdoor_readings :: "raw_reading list" where
  "outdoor_readings =
     [reading ''01-01-2026 10:00'' 30 ''Out'',
      reading ''01-01-2026 11:00'' 32 ''OUT'',
      reading ''01-01-2026 12:00'' 31 ''Out'']"

text \<open>Indoor rows, none with a date in the format.\<close>

definition undated_readings :: "raw_reading list" where
  "undated_readings =
     [reading ''2026-01-01 10:00'' 30 ''In'',
      reading ''yesterday'' 32 ''in'']"

text \<open>The rows that stage 1 persists for \<open>example_readings\<close>, and a store that holds them.\<close>

definition example_filtered :: "filtered_reading list" where
  "example_filtered = dropna_date (assign_date strptime_date (filter_out_in example_readings))"

definition example_filtered_state :: state where
  "example_filtered_state = empty_state\<lparr>filtered_data_parquet := Some example_filtered\<rparr>"

text \<open>The rows of \<open>example_filtered\<close> inside its percentile band, and a store that holds them.\<close>

definition example_cleaned :: "filtered_reading list" where
  "example_cleaned = filter (\<lambda>r. 25 / 2 \<le> temp r \<and> temp r \<le> 36) example_filtered"

definition example_cleaned_state :: state where
  "example_cleaned_state = empty_state\<lparr>cleaned_data_parquet := Some example_cleaned\<rparr>"

text \<open>The two indoor rows of the scenario, as stage 1 persists them.\<close>

definition scenario_filtered :: "filtered_reading list" where
  "scenario_filtered = dropna_date (assign_date strptime_date (filter_out_in scenario_readings))"

definition scenario_filtered_state :: state where
  "scenario_filtered_state = empty_state\<lparr>filtered_data_parquet := Some scenario_filtered\<rparr>"

text \<open>Two rows with the same temperature.\<close>

definition constant_filtered :: "filtered_reading list" where
  "constant_filtered =
     [with_date (reading ''01-01-2026 10:00'' 21 ''In'') (2026, 1, 1),
      with_date (reading ''02-01-2026 10:00'' 21 ''In'') (2026, 1, 2)]"

definition constant_filtered_state :: state where
  "constant_filtered_state = empty_state\<lparr>filtered_data_parquet := Some constant_filtered\<rparr>"

text \<open>The facts of a complete run on \<open>example_readings\<close>, and the time of the report.\<close>

definition example_xcom :: xcom where
  "example_xcom =
     \<lparr>total_rows = Some 8, filtered_rows = Some 6, outliers_removed = Some 2,
      p5 = Some (25 / 2), p95 = Some 36, cleaned_rows = Some 4,
      hottest_days = Some [\<lparr>day = (2026, 1, 3), avg_temp = 24\<rparr>,
        \<lparr>day = (2026, 1, 2), avg_temp = 22\<rparr>, \<lparr>day = (2026, 1, 1), avg_temp = 43 / 2\<rparr>],
      coldest_days = Some [\<lparr>day = (2026, 1, 1), avg_temp = 43 / 2\<rparr>,
        \<lparr>day = (2026, 1, 2), avg_temp = 22\<rparr>, \<lparr>day = (2026, 1, 3), avg_temp = 24\<rparr>]\<rparr>"

definition example_now :: string where
  "example_now = ''2026-01-05 06:00:00''"

text \<open>
  Stores for stage 4: with all the facts, without \<^verbatim>\<open>outliers_removed\<close>, and without
  \<^verbatim>\<open>p5\<close>.
\<close>

definition example_report_state :: state where
  "example_report_state = empty_state\<lparr>ti := example_xcom\<rparr>"

definition no_outliers_state :: state where
  "no_outliers_state = empty_state\<lparr>ti := example_xcom\<lparr>outliers_removed := None\<rparr>\<rparr>"

definition no_p5_state :: state where
  "no_p5_state = empty_state\<lparr>ti := example_xcom\<lparr>p5 := None\<rparr>\<rparr>"

section \<open>Properties of stage 1\<close>

lemma of_char_char_lower:
  "(of_char (char_lower c) :: nat) =
     (if 65 \<le> (of_char c :: nat) \<and> (of_char c :: nat) \<le> 90 then of_char c + 32 else of_char c)"
  by (simp add: char_lower_def Let_def)

lemma char_eq_nat: "(c = d) \<longleftrightarrow> (of_char c :: nat) = of_char d"
  by simp

lemma char_lower_eq_i: "char_lower c = CHR ''i'' \<longleftrightarrow> c = CHR ''i'' \<or> c = CHR ''I''"
  unfolding char_eq_nat [of "char_lower c"] char_eq_nat [of c] of_char_char_lower
  by (auto split: if_splits)

lemma char_lower_eq_n: "char_lower c = CHR ''n'' \<longleftrightarrow> c = CHR ''n'' \<or> c = CHR ''N''"
  unfolding char_eq_nat [of "char_lower c"] char_eq_nat [of c] of_char_char_lower
  by (auto split: if_splits)

lemma str_lower_eq_in:
  "str_lower s = ''in'' \<longleftrightarrow> s \<in> {''in'', ''In'', ''iN'', ''IN''}"
proof -
  have "str_lower s = ''in'' \<longleftrightarrow>
    (\<exists>a b. s = [a, b] \<and> char_lower a = CHR ''i'' \<and> char_lower b = CHR ''n'')"
    by (cases s; cases "tl s"; cases "tl (tl s)") (auto simp: str_lower_def)
  then show ?thesis
    unfolding char_lower_eq_i char_lower_eq_n by auto
qed

lemma set_unique: "set (unique xs) = set xs"
  by (induction xs) auto

lemma distinct_unique: "distinct (unique xs)"
  by (induction xs) (auto simp: set_unique)

lemma truncate_with_date: "raw_reading.truncate (with_date r d) = r"
  by (cases r) (simp add: with_date_def raw_reading.truncate_def raw_reading.extend_def)

lemma noted_date_with_date: "noted_date (with_date r d) = noted_date r"
  by (cases r) (simp add: with_date_def raw_reading.extend_def)

lemma date_with_date: "date (with_date r d) = d"
  by (cases r) (simp add: with_date_def raw_reading.extend_def filtered_reading.fields_def)

lemma truncate_dropna_date:
  "map raw_reading.truncate (dropna_date (assign_date to_date df)) =
     filter (\<lambda>r. to_date (noted_date r) \<noteq> None) df"
proof (induction df)
  case Nil
  then show ?case by (simp add: assign_date_def)
next
  case (Cons r df)
  then show ?case
    by (cases "to_date (noted_date r)")
      (simp_all add: assign_date_def truncate_with_date del: not_None_eq)
qed

lemma date_dropna_date:
  "x \<in> set (dropna_date (assign_date to_date df)) \<Longrightarrow> to_date (noted_date x) = Some (date x)"
proof (induction df)
  case Nil
  then show ?case by (simp add: assign_date_def)
next
  case (Cons r df)
  then show ?case
    by (cases "to_date (noted_date r)")
      (auto simp: assign_date_def noted_date_with_date date_with_date)
qed

lemma length_dropna_date:
  "length (dropna_date (assign_date to_date df)) =
     length (filter (\<lambda>r. to_date (noted_date r) \<noteq> None) df)"
  using truncate_dropna_date [of to_date df] by (metis length_map)

lemma load_and_filter_data_Inl:
  "filter_out_in df = [] \<Longrightarrow>
   load_and_filter_data to_date df st =
     Inl (AirflowException (No_records_after_filtering (unique (map out_in df))))"
  by (simp add: load_and_filter_data_def)

lemma load_and_filter_data_Inr:
  "filter_out_in df \<noteq> [] \<Longrightarrow>
   load_and_filter_data to_date df st =
     Inr (st\<lparr>filtered_data_parquet := Some (dropna_date (assign_date to_date (filter_out_in df))),
            ti := (ti st)\<lparr>filtered_rows :=
                     Some (int (length (dropna_date (assign_date to_date (filter_out_in df))))),
                   total_rows := Some (int (length df))\<rparr>\<rparr>)"
  by (simp add: load_and_filter_data_def Let_def)

lemma load_and_filter_data_rows:
  assumes "load_and_filter_data to_date df st = Inr st'" "filtered_data_parquet st' = Some rows"
  shows "map raw_reading.truncate rows =
     filter (\<lambda>r. to_date (noted_date r) \<noteq> None) (filter_out_in df)"
proof (cases "filter_out_in df = []")
  case True
  then show ?thesis using assms(1) by (simp add: load_and_filter_data_Inl)
next
  case False
  then have "rows = dropna_date (assign_date to_date (filter_out_in df))"
    using assms by (auto simp: load_and_filter_data_Inr)
  then show ?thesis by (simp only: truncate_dropna_date)
qed

text \<open>
  C2. The out/in filter of stage 1 (line 28) keeps a raw row exactly when the lower-cased
  \<^verbatim>\<open>out/in\<close> field is the string \<^verbatim>\<open>in\<close>, that is when the field is one of in, In, iN, IN:
  rows with IN, in or In are kept, rows with Out or OUT are dropped. In what stage 1
  persists, a raw row whose date the parser reads is present exactly when it is a row of
  the input whose lower-cased \<^verbatim>\<open>out/in\<close> field is \<^verbatim>\<open>in\<close>.
\<close>

theorem load_and_filter_data_out_in:
  "(r \<in> set (filter_out_in df) \<longleftrightarrow> r \<in> set df \<and> str_lower (out_in r) = ''in'')
   \<and> (str_lower (out_in r) = ''in'' \<longleftrightarrow> out_in r \<in> {''in'', ''In'', ''iN'', ''IN''})
   \<and> (r \<in> set df \<and> out_in r \<in> {''IN'', ''in'', ''In''} \<longrightarrow> r \<in> set (filter_out_in df))
   \<and> (out_in r \<in> {''Out'', ''OUT''} \<longrightarrow> r \<notin> set (filter_out_in df))
   \<and> (\<forall>st' rows. load_and_filter_data to_date df st = Inr st'
          \<and> filtered_data_parquet st' = Some rows \<and> to_date (noted_date r) \<noteq> None \<longrightarrow>
          (r \<in> raw_reading.truncate ` set rows \<longleftrightarrow> r \<in> set df \<and> str_lower (out_in r) = ''in''))"
proof -
  have stage: "r \<in> raw_reading.truncate ` set rows \<longleftrightarrow> r \<in> set df \<and> str_lower (out_in r) = ''in''"
    if "load_and_filter_data to_date df st = Inr st'" "filtered_data_parquet st' = Some rows"
      "to_date (noted_date r) \<noteq> None" for st' rows
  proof -
    have "raw_reading.truncate ` set rows = set (map raw_reading.truncate rows)"
      by simp
    also have "\<dots> = set (filter (\<lambda>r. to_date (noted_date r) \<noteq> None) (filter_out_in df))"
      by (simp only: load_and_filter_data_rows [OF that(1,2)])
    finally show ?thesis
      using that(3) by (simp add: filter_out_in_def del: not_None_eq)
  qed
  have "r \<in> set (filter_out_in df) \<longleftrightarrow> r \<in> set df \<and> str_lower (out_in r) = ''in''"
    by (simp add: filter_out_in_def)
  moreover have "str_lower (out_in r) = ''in'' \<longleftrightarrow> out_in r \<in> {''in'', ''In'', ''iN'', ''IN''}"
    by (rule str_lower_eq_in)
  moreover have "r \<in> set df \<and> out_in r \<in> {''IN'', ''in'', ''In''} \<longrightarrow> r \<in> set (filter_out_in df)"
    by (auto simp: filter_out_in_def str_lower_eq_in)
  moreover have "out_in r \<in> {''Out'', ''OUT''} \<longrightarrow> r \<notin> set (filter_out_in df)"
    by (auto simp: filter_out_in_def str_lower_eq_in)
  ultimately show ?thesis
    using stage by blast
qed

theorem load_and_filter_data_out_in_witness:
  "reading ''02-01-2026 10:00'' 22 ''IN'' \<in> set (filter_out_in example_readings)
   \<and> reading ''01-01-2026 12:00'' 99 ''Out'' \<notin> set (filter_out_in example_readings)
   \<and> (\<exists>st' rows. load_and_filter_data strptime_date example_readings empty_state = Inr st'
         \<and> filtered_data_parquet st' = Some rows
         \<and> reading ''02-01-2026 10:00'' 22 ''IN'' \<in> raw_reading.truncate ` set rows
         \<and> reading ''01-01-2026 12:00'' 99 ''Out'' \<notin> raw_reading.truncate ` set rows)"
proof -
  let ?kept = "reading ''02-01-2026 10:00'' 22 ''IN''"
  let ?dropped = "reading ''01-01-2026 12:00'' 99 ''Out''"
  have kept: "?kept \<in> set example_readings \<and> out_in ?kept \<in> {''IN'', ''in'', ''In''}"
    by (simp add: example_readings_def reading_def)
  have lower: "str_lower (out_in ?kept) = ''in''"
    by code_simp
  have dropped: "out_in ?dropped \<in> {''Out'', ''OUT''}"
    by (simp add: reading_def)
  have not_lower: "str_lower (out_in ?dropped) \<noteq> ''in''"
    by code_simp
  have d1: "strptime_date (noted_date ?kept) \<noteq> None"
    by code_simp
  have d2: "strptime_date (noted_date ?dropped) \<noteq> None"
    by code_simp
  have "filter_out_in example_readings \<noteq> []"
    by code_simp
  then obtain st' rows where
    run: "load_and_filter_data strptime_date example_readings empty_state = Inr st'"
      "filtered_data_parquet st' = Some rows"
    by (simp add: load_and_filter_data_Inr)
  have a: "?kept \<in> set (filter_out_in example_readings)"
    using kept load_and_filter_data_out_in [of ?kept example_readings] by blast
  have b: "?dropped \<notin> set (filter_out_in example_readings)"
    using dropped load_and_filter_data_out_in [of ?dropped example_readings] by blast
  have c: "?kept \<in> raw_reading.truncate ` set rows"
    using kept lower d1 run
      load_and_filter_data_out_in [of ?kept example_readings strptime_date empty_state]
    by blast
  have d: "?dropped \<notin> raw_reading.truncate ` set rows"
    using not_lower d2 run
      load_and_filter_data_out_in [of ?dropped example_readings strptime_date empty_state]
    by blast
  show ?thesis
    using a b c d run by blast
qed

text \<open>
  C3. When a row passes the out/in filter, stage 1 raises nothing and persists, in order,
  the rows of the out/in-filtered subset whose \<^verbatim>\<open>noted_date\<close> the parser reads, each with
  that date in its \<^verbatim>\<open>date\<close> field; the rows whose date does not parse are dropped. The
  forwarded \<^verbatim>\<open>filtered_rows\<close> is the number of persisted rows, counted after the date
  drop, and \<^verbatim>\<open>total_rows\<close> is the number of raw rows.
\<close>

theorem load_and_filter_data_dates:
  assumes "filter_out_in df \<noteq> []"
  shows "\<exists>st' rows.
     load_and_filter_data to_date df st = Inr st'
     \<and> filtered_data_parquet st' = Some rows
     \<and> map raw_reading.truncate rows
         = filter (\<lambda>r. to_date (noted_date r) \<noteq> None) (filter_out_in df)
     \<and> (\<forall>x \<in> set rows. to_date (noted_date x) = Some (date x))
     \<and> filtered_rows (ti st') = Some (int (length rows))
     \<and> length rows = length (filter (\<lambda>r. to_date (noted_date r) \<noteq> None) (filter_out_in df))
     \<and> total_rows (ti st') = Some (int (length df))"
  using assms
  by (simp add: load_and_filter_data_Inr truncate_dropna_date date_dropna_date
      length_dropna_date del: not_None_eq)

theorem load_and_filter_data_dates_witness:
  "length (filter_out_in example_readings) = 7
   \<and> (\<exists>st'. load_and_filter_data strptime_date example_readings empty_state = Inr st'
         \<and> filtered_rows (ti st') = Some 6 \<and> total_rows (ti st') = Some 8)"
proof -
  have ne: "filter_out_in example_readings \<noteq> []"
    by code_simp
  have seven: "length (filter_out_in example_readings) = 7"
    by code_simp
  have six: "length (filter (\<lambda>r. strptime_date (noted_date r) \<noteq> None)
      (filter_out_in example_readings)) = 6"
    by code_simp
  have eight: "length example_readings = 8"
    by code_simp
  from load_and_filter_data_dates [OF ne, of strptime_date empty_state] six seven eight
  show ?thesis
    by auto
qed

text \<open>
  C5. Stage 1 raises exactly when no row passes the out/in filter, whatever the dates of
  the rows are; the error is then the \<^verbatim>\<open>AirflowException\<close> whose message carries the
  distinct values of the \<^verbatim>\<open>out/in\<close> column.
\<close>

theorem load_and_filter_data_fails_iff:
  "((\<exists>e. load_and_filter_data to_date df st = Inl e) \<longleftrightarrow> filter_out_in df = [])
   \<and> (\<forall>e. load_and_filter_data to_date df st = Inl e \<longrightarrow>
          e = AirflowException (No_records_after_filtering (unique (map out_in df))))
   \<and> distinct (unique (map out_in df))
   \<and> set (unique (map out_in df)) = out_in ` set df"
  by (cases "filter_out_in df = []")
    (simp_all add: load_and_filter_data_Inl load_and_filter_data_Inr distinct_unique set_unique)

theorem load_and_filter_data_fails_iff_witness:
  "load_and_filter_data strptime_date outdoor_readings empty_state =
     Inl (AirflowException (No_records_after_filtering [''Out'', ''OUT'']))
   \<and> (\<forall>e. load_and_filter_data strptime_date undated_readings empty_state \<noteq> Inl e)"
proof -
  have none: "filter_out_in outdoor_readings = []"
    by code_simp
  have vals: "unique (map out_in outdoor_readings) = [''Out'', ''OUT'']"
    by code_simp
  have some: "filter_out_in undated_readings \<noteq> []"
    by code_simp
  show ?thesis
    using none vals some
      load_and_filter_data_fails_iff [of strptime_date outdoor_readings empty_state]
      load_and_filter_data_fails_iff [of strptime_date undated_readings empty_state]
    by metis
qed

section \<open>Properties of stage 2\<close>

lemma lerp_eq: "lerp a b t = a + (b - a) * t"
  by (simp add: lerp_def algebra_simps)

lemma quantile_unfold:
  "quantile q xs =
     (let s = sort xs; v = of_nat (length xs - 1) * q
      in if v < 0 then s ! 0
         else if v \<ge> of_nat (length xs - 1) then s ! (length xs - 1)
         else s ! nat \<lfloor>v\<rfloor> + (s ! (nat \<lfloor>v\<rfloor> + 1) - s ! nat \<lfloor>v\<rfloor>) * (v - of_int \<lfloor>v\<rfloor>))"
proof -
  define m where "m = (of_nat (length xs - 1) :: rat)"
  show ?thesis
    unfolding quantile_def Let_def lerp_eq length_sort m_def [symmetric]
    by simp
qed

lemma quantile_eq_percentile_linear:
  assumes "xs \<noteq> []" "0 \<le> q" "q \<le> 1"
  shows "quantile q xs = percentile_linear q xs"
proof -
  define n where "n = length xs"
  define v where "v = of_nat (n - 1) * q"
  define s where "s = sort xs"
  have v0: "0 \<le> v" using assms(2) by (simp add: v_def)
  have v1: "v \<le> of_nat (n - 1)"
    unfolding v_def using assms(2,3) by (intro mult_left_le) simp_all
  have Q: "quantile q xs =
      (if v \<ge> of_nat (n - 1) then s ! (n - 1)
       else s ! nat \<lfloor>v\<rfloor> + (s ! (nat \<lfloor>v\<rfloor> + 1) - s ! nat \<lfloor>v\<rfloor>) * (v - of_int \<lfloor>v\<rfloor>))"
  proof -
    have "\<not> v < 0" using v0 by simp
    then show ?thesis
      unfolding quantile_unfold Let_def
        n_def [symmetric] s_def [symmetric] v_def [symmetric]
      by simp
  qed
  have P: "percentile_linear q xs =
      s ! nat \<lfloor>v\<rfloor> + (v - of_nat (nat \<lfloor>v\<rfloor>)) * (s ! nat \<lceil>v\<rceil> - s ! nat \<lfloor>v\<rfloor>)"
    unfolding percentile_linear_def value_at_rank_def Let_def n_def [symmetric] s_def [symmetric]
      mult.commute [of q] v_def [symmetric]
    by simp
  have fl: "of_nat (nat \<lfloor>v\<rfloor>) = (of_int \<lfloor>v\<rfloor> :: rat)"
    using v0 by simp
  show ?thesis
  proof (cases "v \<ge> of_nat (n - 1)")
    case True
    with v1 have "v = of_nat (n - 1)" by simp
    then show ?thesis unfolding Q P by simp
  next
    case False
    show ?thesis
    proof (cases "v = of_int \<lfloor>v\<rfloor>")
      case True
      then have "\<lceil>v\<rceil> = \<lfloor>v\<rfloor>" by (metis ceiling_of_int)
      then show ?thesis unfolding Q P using False True fl by simp
    next
      case nonint: False
      then have "\<lceil>v\<rceil> = \<lfloor>v\<rfloor> + 1" by (simp add: ceiling_altdef)
      then have "nat \<lceil>v\<rceil> = nat \<lfloor>v\<rfloor> + 1" using v0 by (simp add: nat_add_distrib)
      then show ?thesis unfolding Q P using False fl by (simp add: algebra_simps)
    qed
  qed
qed

lemma rank_indices:
  fixes w :: rat
  assumes "0 \<le> w" "w \<le> of_nat m"
  shows "nat \<lfloor>w\<rfloor> \<le> nat \<lceil>w\<rceil>" "nat \<lceil>w\<rceil> \<le> m"
proof -
  show "nat \<lfloor>w\<rfloor> \<le> nat \<lceil>w\<rceil>"
    by (simp add: floor_le_ceiling nat_mono)
  have "\<lceil>w\<rceil> \<le> int m" using assms(2) by (simp add: ceiling_le_iff)
  then show "nat \<lceil>w\<rceil> \<le> m" by simp
qed

lemma value_at_rank_bounds:
  assumes "sorted s" "s \<noteq> []" "0 \<le> w" "w \<le> of_nat (length s - 1)"
  shows "s ! nat \<lfloor>w\<rfloor> \<le> value_at_rank s w" "value_at_rank s w \<le> s ! nat \<lceil>w\<rceil>"
proof -
  define a where "a = s ! nat \<lfloor>w\<rfloor>"
  define b where "b = s ! nat \<lceil>w\<rceil>"
  define t where "t = w - of_nat (nat \<lfloor>w\<rfloor>)"
  have hi: "nat \<lceil>w\<rceil> < length s"
    using rank_indices(2) [OF assms(3,4)] assms(2) by (cases s) simp_all
  have ab: "a \<le> b"
    unfolding a_def b_def
    using assms(1) rank_indices(1) [OF assms(3,4)] hi by (rule sorted_nth_mono)
  have t0: "0 \<le> t" using assms(3) by (simp add: t_def)
  have t1: "t \<le> 1" using assms(3) unfolding t_def by (simp; linarith)
  have V: "value_at_rank s w = a + t * (b - a)"
    by (simp add: value_at_rank_def Let_def a_def b_def t_def)
  show "s ! nat \<lfloor>w\<rfloor> \<le> value_at_rank s w"
    unfolding V a_def [symmetric] using ab t0 by simp
  have "t * (b - a) \<le> 1 * (b - a)"
    using ab t1 by (intro mult_right_mono) simp_all
  then show "value_at_rank s w \<le> s ! nat \<lceil>w\<rceil>"
    unfolding V b_def [symmetric] by simp
qed

lemma value_at_rank_mono:
  assumes "sorted s" "s \<noteq> []" "0 \<le> u" "u \<le> v" "v \<le> of_nat (length s - 1)"
  shows "value_at_rank s u \<le> value_at_rank s v"
proof -
  have u1: "u \<le> of_nat (length s - 1)" using assms(4,5) by simp
  have v0: "0 \<le> v" using assms(3,4) by simp
  have fl: "\<lfloor>u\<rfloor> \<le> \<lfloor>v\<rfloor>" using assms(4) by (rule floor_mono)
  have hiv: "nat \<lceil>v\<rceil> < length s"
    using rank_indices(2) [OF v0 assms(5)] assms(2) by (cases s) simp_all
  have lov: "nat \<lfloor>v\<rfloor> < length s"
    using rank_indices(1) [OF v0 assms(5)] hiv by (rule le_less_trans)
  show ?thesis
  proof (cases "\<lfloor>u\<rfloor> = \<lfloor>v\<rfloor>")
    case same: True
    show ?thesis
    proof (cases "u = of_int \<lfloor>u\<rfloor>")
      case True
      then have "\<lceil>u\<rceil> = \<lfloor>u\<rfloor>" by (metis ceiling_of_int)
      then have "value_at_rank s u = s ! nat \<lfloor>v\<rfloor>"
        using True assms(3) same by (simp add: value_at_rank_def Let_def)
      then show ?thesis
        using value_at_rank_bounds(1) [OF assms(1,2) v0 assms(5)] by simp
    next
      case False
      have "of_int \<lfloor>u\<rfloor> \<le> u" by (rule of_int_floor_le)
      with False have "of_int \<lfloor>u\<rfloor> < u" by (metis order_le_less)
      then have "of_int \<lfloor>v\<rfloor> < v" using same assms(4) by simp
      then have cv: "\<lceil>v\<rceil> = \<lfloor>v\<rfloor> + 1" by (simp add: ceiling_altdef)
      from False have "\<lceil>u\<rceil> = \<lfloor>u\<rfloor> + 1" by (simp add: ceiling_altdef)
      then have cu: "\<lceil>u\<rceil> = \<lfloor>v\<rfloor> + 1" using same by simp
      have "s ! nat \<lfloor>v\<rfloor> \<le> s ! nat (\<lfloor>v\<rfloor> + 1)"
        using assms(1) hiv unfolding cv by (intro sorted_nth_mono) simp_all
      then have "(u - of_nat (nat \<lfloor>v\<rfloor>)) * (s ! nat (\<lfloor>v\<rfloor> + 1) - s ! nat \<lfloor>v\<rfloor>)
          \<le> (v - of_nat (nat \<lfloor>v\<rfloor>)) * (s ! nat (\<lfloor>v\<rfloor> + 1) - s ! nat \<lfloor>v\<rfloor>)"
        using assms(4) by (intro mult_right_mono) simp_all
      then show ?thesis
        by (simp add: value_at_rank_def Let_def cu cv same)
    qed
  next
    case False
    then have "\<lfloor>u\<rfloor> + 1 \<le> \<lfloor>v\<rfloor>" using fl by simp
    moreover have "\<lceil>u\<rceil> \<le> \<lfloor>u\<rfloor> + 1" by (simp add: ceiling_altdef)
    ultimately have "nat \<lceil>u\<rceil> \<le> nat \<lfloor>v\<rfloor>" by simp
    then have "s ! nat \<lceil>u\<rceil> \<le> s ! nat \<lfloor>v\<rfloor>"
      using assms(1) lov by (intro sorted_nth_mono) simp_all
    then show ?thesis
      using value_at_rank_bounds(2) [OF assms(1,2,3) u1]
        value_at_rank_bounds(1) [OF assms(1,2) v0 assms(5)]
      by simp
  qed
qed

lemma percentile_linear_mono:
  assumes "xs \<noteq> []" "0 \<le> p" "p \<le> q" "q \<le> 1"
  shows "percentile_linear p xs \<le> percentile_linear q xs"
proof -
  have ne: "sort xs \<noteq> []" using assms(1) by (metis length_sort length_0_conv)
  have "q * of_nat (length xs - 1) \<le> 1 * (of_nat (length xs - 1) :: rat)"
    using assms(4) by (intro mult_right_mono) simp_all
  then have top: "q * of_nat (length xs - 1) \<le> of_nat (length (sort xs) - 1)"
    by simp
  have "p * of_nat (length xs - 1) \<le> q * (of_nat (length xs - 1) :: rat)"
    using assms(3) by (intro mult_right_mono) simp_all
  moreover have "0 \<le> p * (of_nat (length xs - 1) :: rat)"
    using assms(2) by simp
  ultimately show ?thesis
    unfolding percentile_linear_def
    using value_at_rank_mono [OF sorted_sort ne _ _ top] by blast
qed

lemma percentile_linear_const:
  assumes "xs \<noteq> []" "\<forall>x \<in> set xs. x = c" "0 \<le> p" "p \<le> 1"
  shows "percentile_linear p xs = c"
proof -
  have ne: "sort xs \<noteq> []" using assms(1) by (metis length_sort length_0_conv)
  have "p * of_nat (length xs - 1) \<le> 1 * (of_nat (length xs - 1) :: rat)"
    using assms(4) by (intro mult_right_mono) simp_all
  then have top: "p * of_nat (length xs - 1) \<le> of_nat (length (sort xs) - 1)"
    by simp
  have p0: "0 \<le> p * (of_nat (length xs - 1) :: rat)"
    using assms(3) by simp
  have all: "\<And>i. i < length (sort xs) \<Longrightarrow> sort xs ! i = c"
    using assms(2) by (metis nth_mem set_sort)
  have hi: "nat \<lceil>p * of_nat (length xs - 1)\<rceil> < length (sort xs)"
    using rank_indices(2) [OF p0 top] ne by (cases "sort xs") simp_all
  have lo: "nat \<lfloor>p * of_nat (length xs - 1)\<rfloor> < length (sort xs)"
    using rank_indices(1) [OF p0 top] hi by (rule le_less_trans)
  show ?thesis
    unfolding percentile_linear_def value_at_rank_def Let_def
    using all [OF lo] all [OF hi] by simp
qed

lemma clean_temperature_Inr:
  assumes "filtered_data_parquet st = Some df" "df \<noteq> []"
  shows "clean_temperature st =
     Inr (st\<lparr>ti := (ti st)\<lparr>
              outliers_removed := Some (int (length df) - int (length
                (filter (\<lambda>r. percentile_linear (5 / 100) (map temp df) \<le> temp r
                   \<and> temp r \<le> percentile_linear (95 / 100) (map temp df)) df))),
              p5 := Some (percentile_linear (5 / 100) (map temp df)),
              p95 := Some (percentile_linear (95 / 100) (map temp df)),
              cleaned_rows := Some (int (length
                (filter (\<lambda>r. percentile_linear (5 / 100) (map temp df) \<le> temp r
                   \<and> temp r \<le> percentile_linear (95 / 100) (map temp df)) df)))\<rparr>,
            cleaned_data_parquet := Some
                (filter (\<lambda>r. percentile_linear (5 / 100) (map temp df) \<le> temp r
                   \<and> temp r \<le> percentile_linear (95 / 100) (map temp df)) df)\<rparr>)"
proof -
  have ne: "map temp df \<noteq> []" using assms(2) by simp
  have q5: "quantile (5 / 100) (map temp df) = percentile_linear (5 / 100) (map temp df)"
    by (rule quantile_eq_percentile_linear [OF ne]) simp_all
  have q95: "quantile (95 / 100) (map temp df) = percentile_linear (95 / 100) (map temp df)"
    by (rule quantile_eq_percentile_linear [OF ne]) simp_all
  show ?thesis
    using assms q5 q95 by (simp add: clean_temperature_def Let_def)
qed

lemma floor_ceiling_small:
  "\<lfloor>5 / 100 :: rat\<rfloor> = 0" "\<lceil>5 / 100 :: rat\<rceil> = 1"
  "\<lfloor>95 / 100 :: rat\<rfloor> = 0" "\<lceil>95 / 100 :: rat\<rceil> = 1"
  by code_simp+

lemma percentile_linear_pair:
  assumes "x \<le> y"
  shows "percentile_linear (5 / 100) [x, y] = x + (5 / 100) * (y - x)"
    "percentile_linear (95 / 100) [x, y] = x + (95 / 100) * (y - x)"
    "percentile_linear (5 / 100) [y, x] = x + (5 / 100) * (y - x)"
    "percentile_linear (95 / 100) [y, x] = x + (95 / 100) * (y - x)"
  using assms floor_ceiling_small
  by (auto simp: percentile_linear_def value_at_rank_def)

lemma pair_outside_band:
  assumes "x \<noteq> y"
  shows "\<not> (percentile_linear (5 / 100) [x, y] \<le> x \<and> x \<le> percentile_linear (95 / 100) [x, y])"
    "\<not> (percentile_linear (5 / 100) [x, y] \<le> y \<and> y \<le> percentile_linear (95 / 100) [x, y])"
proof -
  consider "x < y" | "y < x" using assms by linarith
  then show "\<not> (percentile_linear (5 / 100) [x, y] \<le> x \<and> x \<le> percentile_linear (95 / 100) [x, y])"
  proof cases
    case 1
    then show ?thesis using percentile_linear_pair(1) [of x y] by (simp add: field_simps)
  next
    case 2
    then show ?thesis using percentile_linear_pair(4) [of y x] by (simp add: field_simps)
  qed
  consider "x < y" | "y < x" using assms by linarith
  then show "\<not> (percentile_linear (5 / 100) [x, y] \<le> y \<and> y \<le> percentile_linear (95 / 100) [x, y])"
  proof cases
    case 1
    then show ?thesis using percentile_linear_pair(2) [of x y] by (simp add: field_simps)
  next
    case 2
    then show ?thesis using percentile_linear_pair(3) [of y x] by (simp add: field_simps)
  qed
qed

text \<open>
  C1. For a non-empty filtered set, stage 2 raises nothing; the forwarded \<^verbatim>\<open>p5\<close> and
  \<^verbatim>\<open>p95\<close> are the 5th and 95th linear-interpolation percentiles of all the filtered
  temperatures (the value at the fractional rank \<open>p * (n - 1)\<close> of the sorted sample,
  interpolated between the bracketing order statistics); the persisted cleaned set is
  exactly the filtered rows with \<open>p5 \<le> temp \<le> p95\<close>, both ends included, in their order;
  \<^verbatim>\<open>outliers_removed\<close> is the filtered row count minus the cleaned row count.
\<close>

theorem clean_temperature_percentile_band:
  assumes "filtered_data_parquet st = Some df" "df \<noteq> []"
  shows "\<exists>st' lo hi kept.
     clean_temperature st = Inr st'
     \<and> lo = percentile_linear (5 / 100) (map temp df)
     \<and> hi = percentile_linear (95 / 100) (map temp df)
     \<and> p5 (ti st') = Some lo \<and> p95 (ti st') = Some hi
     \<and> kept = filter (\<lambda>r. lo \<le> temp r \<and> temp r \<le> hi) df
     \<and> cleaned_data_parquet st' = Some kept
     \<and> outliers_removed (ti st') = Some (int (length df) - int (length kept))
     \<and> cleaned_rows (ti st') = Some (int (length kept))"
  by (simp add: clean_temperature_Inr [OF assms])

theorem clean_temperature_percentile_band_witness:
  "\<exists>st'. clean_temperature example_filtered_state = Inr st'
     \<and> p5 (ti st') = Some (25 / 2) \<and> p95 (ti st') = Some 36
     \<and> map_option (map temp) (cleaned_data_parquet st') = Some [20, 23, 22, 24]
     \<and> outliers_removed (ti st') = Some 2
     \<and> cleaned_rows (ti st') = Some 4"
proof -
  have f: "filtered_data_parquet example_filtered_state = Some example_filtered"
    by (simp add: example_filtered_state_def)
  have ne: "example_filtered \<noteq> []"
    by code_simp
  have lo: "percentile_linear (5 / 100) (map temp example_filtered) = 25 / 2"
    by code_simp
  have hi: "percentile_linear (95 / 100) (map temp example_filtered) = 36"
    by code_simp
  have kept: "map temp (filter (\<lambda>r. 25 / 2 \<le> temp r \<and> temp r \<le> 36) example_filtered)
      = [20, 23, 22, 24]"
    by code_simp
  have n: "length example_filtered = 6"
    by code_simp
  have k: "length (filter (\<lambda>r. 25 / 2 \<le> temp r \<and> temp r \<le> 36) example_filtered) = 4"
    by code_simp
  from clean_temperature_percentile_band [OF f ne, unfolded lo hi]
  obtain st' where st': "clean_temperature example_filtered_state = Inr st'"
      "p5 (ti st') = Some (25 / 2)" "p95 (ti st') = Some 36"
      "cleaned_data_parquet st' =
         Some (filter (\<lambda>r. 25 / 2 \<le> temp r \<and> temp r \<le> 36) example_filtered)"
      "outliers_removed (ti st') = Some (int (length example_filtered)
         - int (length (filter (\<lambda>r. 25 / 2 \<le> temp r \<and> temp r \<le> 36) example_filtered)))"
      "cleaned_rows (ti st') =
         Some (int (length (filter (\<lambda>r. 25 / 2 \<le> temp r \<and> temp r \<le> 36) example_filtered)))"
    by blast
  show ?thesis
    using st' kept n k by (intro exI [of _ st']) simp
qed

text \<open>
  C7. For a non-empty filtered set the forwarded percentiles satisfy \<open>p5 \<le> p95\<close>; when all
  the temperatures are one value \<open>c\<close>, both percentiles are \<open>c\<close>.
\<close>

theorem clean_temperature_p5_le_p95:
  assumes "filtered_data_parquet st = Some df" "df \<noteq> []"
  shows "\<exists>st' lo hi.
     clean_temperature st = Inr st'
     \<and> p5 (ti st') = Some lo \<and> p95 (ti st') = Some hi
     \<and> lo \<le> hi
     \<and> ((\<forall>r \<in> set df. temp r = c) \<longrightarrow> lo = c \<and> hi = c)"
proof -
  have ne: "map temp df \<noteq> []" using assms(2) by simp
  have le: "percentile_linear (5 / 100) (map temp df) \<le> percentile_linear (95 / 100) (map temp df)"
    by (rule percentile_linear_mono [OF ne]) simp_all
  have c5: "(\<forall>r \<in> set df. temp r = c) \<Longrightarrow> percentile_linear (5 / 100) (map temp df) = c"
    by (rule percentile_linear_const [OF ne]) simp_all
  have c95: "(\<forall>r \<in> set df. temp r = c) \<Longrightarrow> percentile_linear (95 / 100) (map temp df) = c"
    by (rule percentile_linear_const [OF ne]) simp_all
  show ?thesis
    using le c5 c95 by (simp add: clean_temperature_Inr [OF assms])
qed

theorem clean_temperature_p5_le_p95_witness:
  "\<exists>st'. clean_temperature constant_filtered_state = Inr st'
     \<and> p5 (ti st') = Some 21 \<and> p95 (ti st') = Some 21"
proof -
  have f: "filtered_data_parquet constant_filtered_state = Some constant_filtered"
    by (simp add: constant_filtered_state_def)
  have ne: "constant_filtered \<noteq> []"
    by code_simp
  have c: "\<forall>r \<in> set constant_filtered. temp r = 21"
    by code_simp
  from clean_temperature_p5_le_p95 [OF f ne, of 21] c show ?thesis
    by blast
qed

text \<open>
  C10. A filtered set of two rows with different temperatures is not empty, yet stage 2
  raises nothing on it and persists an empty cleaned set with \<^verbatim>\<open>cleaned_rows\<close> 0, both
  rows counted as outliers: the band lies strictly between the two temperatures. Stage 3
  then raises its \<^verbatim>\<open>AirflowException\<close> for the empty cleaned set.
\<close>

theorem two_rows_cleaned_empty:
  assumes "filtered_data_parquet st = Some [r1, r2]" "temp r1 \<noteq> temp r2"
  shows "\<exists>st'. clean_temperature st = Inr st'
     \<and> cleaned_data_parquet st' = Some []
     \<and> cleaned_rows (ti st') = Some 0
     \<and> outliers_removed (ti st') = Some 2
     \<and> calculate_extreme_days st' = Inl (AirflowException No_data_for_extreme_days)"
proof -
  have ne: "[r1, r2] \<noteq> []" by simp
  have "filter (\<lambda>r. percentile_linear (5 / 100) (map temp [r1, r2]) \<le> temp r
       \<and> temp r \<le> percentile_linear (95 / 100) (map temp [r1, r2])) [r1, r2] = []"
    using pair_outside_band [OF assms(2)] by simp
  then show ?thesis
    unfolding clean_temperature_Inr [OF assms(1) ne]
    by (simp add: calculate_extreme_days_def)
qed

theorem two_rows_cleaned_empty_witness:
  "length scenario_filtered = 2
   \<and> (\<exists>st'. clean_temperature scenario_filtered_state = Inr st'
         \<and> cleaned_data_parquet st' = Some []
         \<and> cleaned_rows (ti st') = Some 0
         \<and> calculate_extreme_days st' = Inl (AirflowException No_data_for_extreme_days))"
proof -
  have rows: "scenario_filtered =
      [with_date (reading ''01-01-2026 10:00'' 30 ''In'') (2026, 1, 1),
       with_date (reading ''01-01-2026 11:00'' 32 ''in'') (2026, 1, 1)]"
    by code_simp
  have f: "filtered_data_parquet scenario_filtered_state =
      Some [with_date (reading ''01-01-2026 10:00'' 30 ''In'') (2026, 1, 1),
            with_date (reading ''01-01-2026 11:00'' 32 ''in'') (2026, 1, 1)]"
    by (simp add: scenario_filtered_state_def rows)
  have d: "temp (with_date (reading ''01-01-2026 10:00'' 30 ''In'') (2026, 1, 1))
      \<noteq> temp (with_date (reading ''01-01-2026 11:00'' 32 ''in'') (2026, 1, 1))"
    by code_simp
  from two_rows_cleaned_empty [OF f d] show ?thesis
    unfolding rows by auto
qed

section \<open>Properties of stage 3\<close>

lemma day_groupby_date_mean: "map day (groupby_date_mean df) = sort (unique (map date df))"
  by (simp add: groupby_date_mean_def comp_def)

lemma distinct_day_groupby: "distinct (map day (groupby_date_mean df))"
  by (simp add: day_groupby_date_mean distinct_unique)

lemma length_groupby_date_mean: "length (groupby_date_mean df) = card (date ` set df)"
proof -
  have "length (groupby_date_mean df) = length (unique (map date df))"
    by (simp add: groupby_date_mean_def)
  also have "\<dots> = card (set (unique (map date df)))"
    by (simp add: distinct_card distinct_unique)
  finally show ?thesis by (simp add: set_unique)
qed

lemma groupby_date_mean_entry:
  assumes "e \<in> set (groupby_date_mean df)"
  shows "day e \<in> date ` set df"
    "avg_temp e = mean (map temp (filter (\<lambda>r. date r = day e) df))"
  using assms by (auto simp: groupby_date_mean_def set_unique)

lemma distinct_map_insort_key:
  "distinct (map g (insort_key f x xs)) \<longleftrightarrow> g x \<notin> g ` set xs \<and> distinct (map g xs)"
  by (induction xs) (auto simp: set_insort_key)

lemma distinct_map_sort_key: "distinct (map g (sort_key f xs)) \<longleftrightarrow> distinct (map g xs)"
  by (induction xs) (auto simp: distinct_map_insort_key)

lemma distinct_map_take: "distinct (map g xs) \<Longrightarrow> distinct (map g (take n xs))"
  by (simp add: take_map [symmetric])

lemma nlargest_props:
  "sorted_wrt (\<lambda>a b. avg_temp a \<ge> avg_temp b) (nlargest n ds)"
  "length (nlargest n ds) = min n (length ds)"
  "set (nlargest n ds) \<subseteq> set ds"
  "distinct (map day ds) \<Longrightarrow> distinct (map day (nlargest n ds))"
proof -
  have "sorted (map (\<lambda>r. - avg_temp r) (sort_key (\<lambda>r. - avg_temp r) ds))"
    by (rule sorted_sort_key)
  then have "sorted_wrt (\<lambda>a b. avg_temp a \<ge> avg_temp b) (sort_key (\<lambda>r. - avg_temp r) ds)"
    by (simp add: sorted_wrt_map)
  then show "sorted_wrt (\<lambda>a b. avg_temp a \<ge> avg_temp b) (nlargest n ds)"
    unfolding nlargest_def by (rule sorted_wrt_take)
  show "length (nlargest n ds) = min n (length ds)"
    by (simp add: nlargest_def min.commute)
  show "set (nlargest n ds) \<subseteq> set ds"
    unfolding nlargest_def using set_take_subset [of n "sort_key (\<lambda>r. - avg_temp r) ds"] by simp
  show "distinct (map day ds) \<Longrightarrow> distinct (map day (nlargest n ds))"
    unfolding nlargest_def by (intro distinct_map_take) (simp add: distinct_map_sort_key)
qed

lemma nsmallest_props:
  "sorted_wrt (\<lambda>a b. avg_temp a \<le> avg_temp b) (nsmallest n ds)"
  "length (nsmallest n ds) = min n (length ds)"
  "set (nsmallest n ds) \<subseteq> set ds"
  "distinct (map day ds) \<Longrightarrow> distinct (map day (nsmallest n ds))"
proof -
  have "sorted (map avg_temp (sort_key avg_temp ds))"
    by (rule sorted_sort_key)
  then have "sorted_wrt (\<lambda>a b. avg_temp a \<le> avg_temp b) (sort_key avg_temp ds)"
    by (simp add: sorted_wrt_map)
  then show "sorted_wrt (\<lambda>a b. avg_temp a \<le> avg_temp b) (nsmallest n ds)"
    unfolding nsmallest_def by (rule sorted_wrt_take)
  show "length (nsmallest n ds) = min n (length ds)"
    by (simp add: nsmallest_def min.commute)
  show "set (nsmallest n ds) \<subseteq> set ds"
    unfolding nsmallest_def using set_take_subset [of n "sort_key avg_temp ds"] by simp
  show "distinct (map day ds) \<Longrightarrow> distinct (map day (nsmallest n ds))"
    unfolding nsmallest_def by (intro distinct_map_take) (simp add: distinct_map_sort_key)
qed

lemma calculate_extreme_days_Inr:
  assumes "cleaned_data_parquet st = Some df" "df \<noteq> []"
  shows "calculate_extreme_days st =
     Inr (st\<lparr>hottest_days_csv := Some (nlargest 5 (groupby_date_mean df)),
            coldest_days_csv := Some (nsmallest 5 (groupby_date_mean df)),
            ti := (ti st)\<lparr>hottest_days := Some (nlargest 5 (groupby_date_mean df)),
                          coldest_days := Some (nsmallest 5 (groupby_date_mean df))\<rparr>\<rparr>)"
  using assms by (simp add: calculate_extreme_days_def Let_def)

text \<open>
  C4. For a non-empty cleaned set, stage 3 raises nothing. Each entry of the two lists is
  a date of the cleaned set with the arithmetic mean of the temperatures of the rows of
  that date, no date occurs twice in a list, the hottest list is in descending and the
  coldest list in ascending order of the mean, and each list has \<open>min 5 d\<close> entries for
  \<open>d\<close> distinct dates: with fewer than five dates there is no padding and no error.
\<close>

theorem calculate_extreme_days_lists:
  assumes "cleaned_data_parquet st = Some df" "df \<noteq> []"
  shows "\<exists>st' hottest coldest.
     calculate_extreme_days st = Inr st'
     \<and> hottest_days (ti st') = Some hottest \<and> hottest_days_csv st' = Some hottest
     \<and> coldest_days (ti st') = Some coldest \<and> coldest_days_csv st' = Some coldest
     \<and> sorted_wrt (\<lambda>a b. avg_temp a \<ge> avg_temp b) hottest
     \<and> sorted_wrt (\<lambda>a b. avg_temp a \<le> avg_temp b) coldest
     \<and> length hottest = min 5 (card (date ` set df))
     \<and> length coldest = min 5 (card (date ` set df))
     \<and> distinct (map day hottest) \<and> distinct (map day coldest)
     \<and> (\<forall>e \<in> set hottest \<union> set coldest.
           day e \<in> date ` set df
           \<and> avg_temp e = mean (map temp (filter (\<lambda>r. date r = day e) df)))"
proof -
  let ?ds = "groupby_date_mean df"
  have entries: "\<forall>e \<in> set (nlargest 5 ?ds) \<union> set (nsmallest 5 ?ds).
      day e \<in> date ` set df
      \<and> avg_temp e = mean (map temp (filter (\<lambda>r. date r = day e) df))"
    using nlargest_props(3) [of 5 ?ds] nsmallest_props(3) [of 5 ?ds]
      groupby_date_mean_entry [of _ df]
    by blast
  show ?thesis
    unfolding calculate_extreme_days_Inr [OF assms]
    using entries
    by (simp add: nlargest_props nsmallest_props distinct_day_groupby length_groupby_date_mean)
qed

theorem calculate_extreme_days_lists_witness:
  "\<exists>st'. calculate_extreme_days example_cleaned_state = Inr st'
     \<and> hottest_days (ti st') = Some [\<lparr>day = (2026, 1, 3), avg_temp = 24\<rparr>,
          \<lparr>day = (2026, 1, 2), avg_temp = 22\<rparr>, \<lparr>day = (2026, 1, 1), avg_temp = 43 / 2\<rparr>]
     \<and> coldest_days (ti st') = Some [\<lparr>day = (2026, 1, 1), avg_temp = 43 / 2\<rparr>,
          \<lparr>day = (2026, 1, 2), avg_temp = 22\<rparr>, \<lparr>day = (2026, 1, 3), avg_temp = 24\<rparr>]"
proof -
  have f: "cleaned_data_parquet example_cleaned_state = Some example_cleaned"
    by (simp add: example_cleaned_state_def)
  have ne: "example_cleaned \<noteq> []"
    by code_simp
  from calculate_extreme_days_lists [OF f ne]
  obtain st' hottest coldest where st': "calculate_extreme_days example_cleaned_state = Inr st'"
      "hottest_days (ti st') = Some hottest" "coldest_days (ti st') = Some coldest"
      "length hottest = min 5 (card (date ` set example_cleaned))"
    by blast
  have run: "calculate_extreme_days example_cleaned_state =
      Inr (example_cleaned_state\<lparr>
        hottest_days_csv := Some [\<lparr>day = (2026, 1, 3), avg_temp = 24\<rparr>,
          \<lparr>day = (2026, 1, 2), avg_temp = 22\<rparr>, \<lparr>day = (2026, 1, 1), avg_temp = 43 / 2\<rparr>],
        coldest_days_csv := Some [\<lparr>day = (2026, 1, 1), avg_temp = 43 / 2\<rparr>,
          \<lparr>day = (2026, 1, 2), avg_temp = 22\<rparr>, \<lparr>day = (2026, 1, 3), avg_temp = 24\<rparr>],
        ti := (ti example_cleaned_state)\<lparr>
          hottest_days := Some [\<lparr>day = (2026, 1, 3), avg_temp = 24\<rparr>,
            \<lparr>day = (2026, 1, 2), avg_temp = 22\<rparr>, \<lparr>day = (2026, 1, 1), avg_temp = 43 / 2\<rparr>],
          coldest_days := Some [\<lparr>day = (2026, 1, 1), avg_temp = 43 / 2\<rparr>,
            \<lparr>day = (2026, 1, 2), avg_temp = 22\<rparr>, \<lparr>day = (2026, 1, 3), avg_temp = 24\<rparr>]\<rparr>\<rparr>)"
    by code_simp
  show ?thesis
    using st' run by (intro exI [of _ st']) auto
qed

section \<open>Properties of the whole run\<close>

lemma load_and_filter_data_facts:
  assumes "load_and_filter_data to_date df st = Inr st1"
  shows "\<exists>rows. filtered_data_parquet st1 = Some rows
     \<and> filtered_rows (ti st1) = Some (int (length rows))
     \<and> total_rows (ti st1) = Some (int (length df))
     \<and> length rows \<le> length df"
proof (cases "filter_out_in df = []")
  case True
  then show ?thesis using assms by (simp add: load_and_filter_data_Inl)
next
  case False
  have "length (dropna_date (assign_date to_date (filter_out_in df))) \<le> length (filter_out_in df)"
    unfolding length_dropna_date by (rule length_filter_le)
  also have "\<dots> \<le> length df"
    unfolding filter_out_in_def by (rule length_filter_le)
  finally show ?thesis
    using assms False by (auto simp: load_and_filter_data_Inr)
qed

lemma clean_temperature_facts:
  assumes "clean_temperature st1 = Inr st2"
  shows "\<exists>df c. filtered_data_parquet st1 = Some df
     \<and> cleaned_rows (ti st2) = Some c \<and> 0 \<le> c \<and> c \<le> int (length df)
     \<and> filtered_rows (ti st2) = filtered_rows (ti st1)
     \<and> total_rows (ti st2) = total_rows (ti st1)"
  using assms
  by (auto simp: clean_temperature_def Let_def split: option.splits if_splits)

lemma calculate_extreme_days_facts:
  assumes "calculate_extreme_days st2 = Inr st3"
  shows "cleaned_rows (ti st3) = cleaned_rows (ti st2)
     \<and> filtered_rows (ti st3) = filtered_rows (ti st2)
     \<and> total_rows (ti st3) = total_rows (ti st2)"
  using assms
  by (auto simp: calculate_extreme_days_def Let_def split: option.splits if_splits)

lemma generate_report_facts:
  assumes "generate_report now st3 = Inr st4"
  shows "ti st4 = ti st3"
  using assms by (auto simp: generate_report_def split: sum.splits)

text \<open>
  C6. When the four stages run to completion, the forwarded row counts satisfy
  \<open>0 \<le> cleaned_rows \<le> filtered_rows \<le> total_rows\<close>.
\<close>

theorem dag_row_counts:
  assumes "dag to_date now df st = Inr st'"
  shows "\<exists>t f c. total_rows (ti st') = Some t \<and> filtered_rows (ti st') = Some f
     \<and> cleaned_rows (ti st') = Some c \<and> 0 \<le> c \<and> c \<le> f \<and> f \<le> t"
proof -
  from assms obtain st1 st2 st3 where
    s1: "load_and_filter_data to_date df st = Inr st1" and
    s2: "clean_temperature st1 = Inr st2" and
    s3: "calculate_extreme_days st2 = Inr st3" and
    s4: "generate_report now st3 = Inr st'"
    by (auto simp: dag_def split: sum.splits)
  from load_and_filter_data_facts [OF s1] obtain rows where
    r: "filtered_data_parquet st1 = Some rows"
      "filtered_rows (ti st1) = Some (int (length rows))"
      "total_rows (ti st1) = Some (int (length df))" "length rows \<le> length df"
    by blast
  from clean_temperature_facts [OF s2] r(1) obtain c where
    k: "cleaned_rows (ti st2) = Some c" "0 \<le> c" "c \<le> int (length rows)"
      "filtered_rows (ti st2) = filtered_rows (ti st1)"
      "total_rows (ti st2) = total_rows (ti st1)"
    by auto
  show ?thesis
    using r k calculate_extreme_days_facts [OF s3] generate_report_facts [OF s4]
    by simp
qed

theorem dag_row_counts_witness:
  "\<exists>st'. dag strptime_date example_now example_readings empty_state = Inr st'
     \<and> total_rows (ti st') = Some 8 \<and> filtered_rows (ti st') = Some 6
     \<and> cleaned_rows (ti st') = Some 4"
proof -
  have run: "\<not> isl (dag strptime_date example_now example_readings empty_state)"
    by code_simp
  then obtain st' where st': "dag strptime_date example_now example_readings empty_state = Inr st'"
    by (cases "dag strptime_date example_now example_readings empty_state") auto
  have facts: "ti (projr (dag strptime_date example_now example_readings empty_state)) = example_xcom"
    by code_simp
  from dag_row_counts [OF st'] facts show ?thesis
    unfolding st' by (intro exI [of _ st']) (simp add: example_xcom_def)
qed


section \<open>Properties of stage 4\<close>

lemma render_report_Inr:
  assumes "total_rows x = Some t" "filtered_rows x = Some f" "p5 x = Some a" "p95 x = Some b"
    "hottest_days x = Some hot" "coldest_days x = Some cold" "t \<noteq> 0"
  shows "render_report now x =
     Inr (lit_header @ now
        @ lit_total @ str_int t
        @ lit_filtered @ str_int f
        @ lit_percent @ format_2f_double (float_mul (int_truediv f t) (float_of_int 100))
        @ lit_p5 @ format_2f a
        @ lit_p95 @ format_2f b
        @ lit_outliers @ str_int_option (outliers_removed x)
        @ lit_cleaned @ str_int_option (cleaned_rows x)
        @ lit_hottest @ day_lines hot
        @ lit_coldest @ day_lines cold
        @ lit_saved @ HOT_DAYS_PATH
        @ lit_sep @ COLD_DAYS_PATH
        @ lit_footer)"
  using assms by (simp add: render_report_def percent_filtered_def str_int_option_def)

lemma render_report_Inl:
  assumes "total_rows x = None \<or> filtered_rows x = None \<or> total_rows x = Some 0
    \<or> p5 x = None \<or> p95 x = None \<or> hottest_days x = None \<or> coldest_days x = None"
  shows "render_report now x = Inl TypeError
    \<or> (render_report now x = Inl ZeroDivisionError \<and> total_rows x = Some 0)"
  using assms
  by (auto simp: render_report_def percent_filtered_def split: option.splits sum.splits)

lemma isl_generate_report: "isl (generate_report now st) = isl (render_report now (ti st))"
  by (simp add: generate_report_def split: sum.splits)

text \<open>
  C8, as the code has it. Stage 4 has no check of its own for a missing fact. It fails
  exactly when \<^verbatim>\<open>total_rows\<close>, \<^verbatim>\<open>filtered_rows\<close>, \<^verbatim>\<open>p5\<close>, \<^verbatim>\<open>p95\<close>, \<^verbatim>\<open>hottest_days\<close> or
  \<^verbatim>\<open>coldest_days\<close> is missing, or \<^verbatim>\<open>total_rows\<close> is 0; the error is Python's \<^verbatim>\<open>TypeError\<close>,
  or its \<^verbatim>\<open>ZeroDivisionError\<close> for a \<^verbatim>\<open>total_rows\<close> of 0. A missing \<^verbatim>\<open>outliers_removed\<close> or
  \<^verbatim>\<open>cleaned_rows\<close> does not make it fail.
\<close>

theorem generate_report_fails_iff:
  "(isl (generate_report now st) \<longleftrightarrow>
      (total_rows (ti st) = None \<or> filtered_rows (ti st) = None \<or> total_rows (ti st) = Some 0
       \<or> p5 (ti st) = None \<or> p95 (ti st) = None
       \<or> hottest_days (ti st) = None \<or> coldest_days (ti st) = None))
   \<and> (\<forall>e. generate_report now st = Inl e \<longrightarrow>
          e = TypeError \<or> (e = ZeroDivisionError \<and> total_rows (ti st) = Some 0))"
proof (cases "total_rows (ti st) = None \<or> filtered_rows (ti st) = None
    \<or> total_rows (ti st) = Some 0 \<or> p5 (ti st) = None \<or> p95 (ti st) = None
    \<or> hottest_days (ti st) = None \<or> coldest_days (ti st) = None")
  case True
  from render_report_Inl [OF True, of now] show ?thesis
    using True by (auto simp: generate_report_def)
next
  case False
  then obtain t f a b hot cold where
    "total_rows (ti st) = Some t" "filtered_rows (ti st) = Some f" "p5 (ti st) = Some a"
    "p95 (ti st) = Some b" "hottest_days (ti st) = Some hot" "coldest_days (ti st) = Some cold"
    "t \<noteq> 0"
    by auto
  from render_report_Inr [OF this, of now] show ?thesis
    using False by (simp add: generate_report_def)
qed

theorem generate_report_fails_iff_witness:
  "generate_report example_now no_p5_state = Inl TypeError"
proof -
  have p: "p5 (ti no_p5_state) = None"
    by (simp add: no_p5_state_def)
  have t: "total_rows (ti no_p5_state) \<noteq> Some 0"
    by (simp add: no_p5_state_def example_xcom_def)
  from generate_report_fails_iff [of example_now no_p5_state] p t show ?thesis
    by (cases "generate_report example_now no_p5_state") auto
qed

text \<open>
  C8 as stated fails: with every fact but \<^verbatim>\<open>outliers_removed\<close> in the store, stage 4 does
  not fail; the report says \<^verbatim>\<open>None\<close> where the count would be.
\<close>

theorem generate_report_without_outliers_removed:
  "outliers_removed (ti no_outliers_state) = None
   \<and> \<not> isl (generate_report example_now no_outliers_state)"
  by (simp add: isl_generate_report no_outliers_state_def example_xcom_def
      render_report_Inr [where t = 8 and f = 6 and a = "25 / 2" and b = 36])

lemma round_half_even_close:
  "\<bar>of_int (round_half_even z) - z\<bar> \<le> 1 / 2" "0 \<le> z \<Longrightarrow> 0 \<le> round_half_even z"
proof -
  have fl: "of_int \<lfloor>z\<rfloor> \<le> z" "z < of_int \<lfloor>z\<rfloor> + 1"
    by linarith+
  show "\<bar>of_int (round_half_even z) - z\<bar> \<le> 1 / 2"
    using fl by (auto simp: round_half_even_def Let_def)
  show "0 \<le> z \<Longrightarrow> 0 \<le> round_half_even z"
    by (auto simp: round_half_even_def Let_def)
qed

lemma pow2_powi: "pow2 k = 2 powi k"
  by (simp add: pow2_def power_int_def field_simps)

lemma pow2_pos: "0 < pow2 k"
  by (simp add: pow2_powi zero_less_power_int)

lemma pow2_mono: "j \<le> k \<Longrightarrow> pow2 j \<le> pow2 k"
  by (simp add: pow2_powi power_int_increasing)

lemma pow2_le_imp_le: "pow2 j \<le> pow2 k \<Longrightarrow> j \<le> k"
proof (rule ccontr)
  assume le: "pow2 j \<le> pow2 k" and "\<not> j \<le> k"
  then have "k < j" by simp
  then have "(2::rat) powi k < 2 powi j" by (intro power_int_strict_increasing) simp_all
  then show False using le by (simp add: pow2_powi)
qed

lemma pow2_diff: "pow2 (j - k) = pow2 j / pow2 k"
  by (simp add: pow2_powi power_int_diff)

lemma pow2_nat: "0 \<le> k \<Longrightarrow> pow2 k = 2 ^ nat k"
  by (simp add: pow2_def)

lemma bit_length_bounds:
  "0 < n \<Longrightarrow> 1 \<le> bit_length n \<and> 2 ^ nat (bit_length n - 1) \<le> n \<and> n < 2 ^ nat (bit_length n)"
proof (induction n rule: bit_length.induct)
  case (1 n)
  show ?case
  proof (cases "n = 1")
    case True
    have "bit_length 1 = 1"
      by (simp add: bit_length.simps [of 1] bit_length.simps [of 0])
    then show ?thesis using True by simp
  next
    case False
    with "1.prems" have half: "0 < n div 2" by simp
    from "1.IH" [OF _ half] "1.prems"
    have ih: "1 \<le> bit_length (n div 2)"
      "2 ^ nat (bit_length (n div 2) - 1) \<le> n div 2"
      "n div 2 < 2 ^ nat (bit_length (n div 2))"
      by simp_all
    have eq: "bit_length n = 1 + bit_length (n div 2)"
      using "1.prems" by (subst bit_length.simps) simp
    have nat1: "nat (bit_length n - 1) = Suc (nat (bit_length (n div 2) - 1))"
      using ih(1) eq by simp
    have nat2: "nat (bit_length n) = Suc (nat (bit_length (n div 2)))"
      using ih(1) eq by simp
    have "2 * 2 ^ nat (bit_length (n div 2) - 1) \<le> n"
      using ih(2) by linarith
    moreover have "n < 2 * 2 ^ nat (bit_length (n div 2))"
      using ih(3) by linarith
    ultimately show ?thesis
      using ih(1) eq unfolding nat1 nat2 by simp
  qed
qed

lemma floor_log2_le:
  assumes "0 < x"
  shows "pow2 (floor_log2 x) \<le> x"
proof -
  obtain a b where q: "quotient_of x = (a, b)" by (cases "quotient_of x")
  have b: "0 < b" using q by (rule quotient_of_denom_pos)
  have x: "x = of_int a / of_int b" using q by (rule quotient_of_div)
  have a: "0 < a" using assms b unfolding x by (simp add: zero_less_divide_iff)
  define k where "k = bit_length a - bit_length b"
  have fl: "floor_log2 x = (if pow2 k \<le> x then k else k - 1)"
    by (simp add: floor_log2_def q k_def Let_def)
  show ?thesis
  proof (cases "pow2 k \<le> x")
    case True
    then show ?thesis by (simp add: fl)
  next
    case False
    from bit_length_bounds [OF a] have la: "1 \<le> bit_length a"
      "2 ^ nat (bit_length a - 1) \<le> a" by simp_all
    from bit_length_bounds [OF b] have lb: "1 \<le> bit_length b"
      "b < 2 ^ nat (bit_length b)" by simp_all
    have A: "pow2 (bit_length a - 1) \<le> of_int a"
    proof -
      have "(of_int (2 ^ nat (bit_length a - 1)) :: rat) \<le> of_int a"
        using la(2) by (simp only: of_int_le_iff)
      then show ?thesis using la(1) by (simp add: pow2_nat)
    qed
    have B: "of_int b \<le> pow2 (bit_length b)"
    proof -
      have "(of_int b :: rat) \<le> of_int (2 ^ nat (bit_length b))"
        using lb(2) by (simp only: of_int_le_iff)
      then show ?thesis using lb(1) by (simp add: pow2_nat)
    qed
    have "pow2 (k - 1) = pow2 (bit_length a - 1) / pow2 (bit_length b)"
      unfolding k_def using pow2_diff [of "bit_length a - 1" "bit_length b"]
      by (simp add: algebra_simps)
    also have "\<dots> \<le> of_int a / pow2 (bit_length b)"
      using A pow2_pos [of "bit_length b"] by (simp add: divide_right_mono)
    also have "\<dots> \<le> of_int a / of_int b"
      using B a b by (intro divide_left_mono) (simp_all add: pow2_pos)
    finally have "pow2 (k - 1) \<le> x" by (simp only: x)
    then show ?thesis using False by (simp add: fl)
  qed
qed

lemma floor_log2_less:
  assumes "0 < x"
  shows "x < pow2 (floor_log2 x + 1)"
proof -
  obtain a b where q: "quotient_of x = (a, b)" by (cases "quotient_of x")
  have b: "0 < b" using q by (rule quotient_of_denom_pos)
  have x: "x = of_int a / of_int b" using q by (rule quotient_of_div)
  have a: "0 < a" using assms b unfolding x by (simp add: zero_less_divide_iff)
  define k where "k = bit_length a - bit_length b"
  have fl: "floor_log2 x = (if pow2 k \<le> x then k else k - 1)"
    by (simp add: floor_log2_def q k_def Let_def)
  show ?thesis
  proof (cases "pow2 k \<le> x")
    case False
    then show ?thesis by (simp add: fl)
  next
    case True
    from bit_length_bounds [OF a] have la: "1 \<le> bit_length a"
      "a < 2 ^ nat (bit_length a)" by simp_all
    from bit_length_bounds [OF b] have lb: "1 \<le> bit_length b"
      "2 ^ nat (bit_length b - 1) \<le> b" by simp_all
    have A: "of_int a < pow2 (bit_length a)"
    proof -
      have "(of_int a :: rat) < of_int (2 ^ nat (bit_length a))"
        using la(2) by (simp only: of_int_less_iff)
      then show ?thesis using la(1) by (simp add: pow2_nat)
    qed
    have B: "pow2 (bit_length b - 1) \<le> of_int b"
    proof -
      have "(of_int (2 ^ nat (bit_length b - 1)) :: rat) \<le> of_int b"
        using lb(2) by (simp only: of_int_le_iff)
      then show ?thesis using lb(1) by (simp add: pow2_nat)
    qed
    have "of_int a / of_int b < pow2 (bit_length a) / of_int b"
      using A b by (simp add: divide_strict_right_mono)
    also have "\<dots> \<le> pow2 (bit_length a) / pow2 (bit_length b - 1)"
      using B b pow2_pos [of "bit_length b - 1"] pow2_pos [of "bit_length a"]
      by (intro divide_left_mono) (simp_all add: less_imp_le)
    also have "\<dots> = pow2 (k + 1)"
      unfolding k_def using pow2_diff [of "bit_length a" "bit_length b - 1"]
      by (simp add: algebra_simps)
    finally have "x < pow2 (k + 1)" by (simp only: x)
    then show ?thesis using True by (simp add: fl)
  qed
qed

lemma round_double_nonneg: "0 \<le> x \<Longrightarrow> 0 \<le> round_double x"
  using round_half_even_close(2) [of "x / pow2 (max (floor_log2 x - 52) (- 1074))"]
    pow2_pos [of "max (floor_log2 x - 52) (- 1074)"]
  by (simp add: round_double_def Let_def less_imp_le)

lemma round_double_close:
  assumes "0 \<le> x" "x \<le> pow2 E" "- 1022 \<le> E"
  shows "\<bar>round_double x - x\<bar> \<le> pow2 (E - 53)"
proof (cases "x = 0")
  case True
  then show ?thesis using pow2_pos [of "E - 53"] by (simp add: round_double_def)
next
  case False
  with assms(1) have pos: "0 < x" by simp
  define q where "q = max (floor_log2 x - 52) (- 1074)"
  define m where "m = round_half_even (x / pow2 q)"
  have rd: "round_double x = of_int m * pow2 q"
    using False by (simp add: round_double_def Let_def q_def m_def)
  have "pow2 (floor_log2 x) \<le> pow2 E"
    using floor_log2_le [OF pos] assms(2) by simp
  then have "floor_log2 x \<le> E" by (rule pow2_le_imp_le)
  then have qE: "q \<le> E - 52" using assms(3) by (simp add: q_def)
  have "\<bar>of_int m - x / pow2 q\<bar> \<le> 1 / 2"
    unfolding m_def by (rule round_half_even_close(1))
  then have "\<bar>of_int m - x / pow2 q\<bar> * pow2 q \<le> 1 / 2 * pow2 q"
    using pow2_pos [of q] by (intro mult_right_mono) simp_all
  moreover have "\<bar>of_int m - x / pow2 q\<bar> * pow2 q = \<bar>of_int m * pow2 q - x\<bar>"
  proof -
    have "\<bar>of_int m - x / pow2 q\<bar> * pow2 q = \<bar>(of_int m - x / pow2 q) * pow2 q\<bar>"
      using pow2_pos [of q] by (simp add: abs_mult)
    also have "(of_int m - x / pow2 q) * pow2 q = of_int m * pow2 q - x"
      using pow2_pos [of q] by (simp add: field_simps)
    finally show ?thesis .
  qed
  ultimately have "\<bar>round_double x - x\<bar> \<le> pow2 q / 2"
    by (simp add: rd)
  also have "pow2 q / 2 \<le> pow2 (E - 52) / 2"
    using pow2_mono [OF qE] by simp
  also have "pow2 (E - 52) / 2 = pow2 (E - 53)"
    using pow2_diff [of "E - 52" 1] by (simp add: pow2_def)
  finally show ?thesis .
qed

lemma round_double_100: "round_double 100 = 100"
  by code_simp

lemma percent_close:
  assumes "0 \<le> f" "f \<le> t" "0 < t"
  shows "\<exists>m. float_mul (int_truediv f t) (float_of_int 100) = Double False m
    \<and> \<bar>m - of_int f / of_int t * 100\<bar> \<le> 1 / 2 ^ 45"
proof -
  define x :: rat where "x = of_int f / of_int t"
  define d where "d = round_double x"
  have x0: "0 \<le> x" using assms by (simp add: x_def)
  have x1: "x \<le> 1" using assms by (simp add: x_def)
  have dx: "\<bar>d - x\<bar> \<le> pow2 (- 53)"
    unfolding d_def using round_double_close [OF x0, of 0] x1 by (simp add: pow2_def)
  have d0: "0 \<le> d" unfolding d_def using x0 by (rule round_double_nonneg)
  have p53: "pow2 (- 53) = 1 / 2 ^ 53" by (simp add: pow2_def)
  have p46: "pow2 (- 46) = 1 / 2 ^ 46" by (simp add: pow2_def)
  have small: "(1 / 2 ^ 53 :: rat) \<le> 1 / 4" by simp
  have d1: "d \<le> 1 + 1 / 2 ^ 53" using dx x1 unfolding p53 by linarith
  have y0: "0 \<le> d * 100" using d0 by simp
  have y1: "d * 100 \<le> pow2 7" using d1 small by (simp add: pow2_def)
  have dy: "\<bar>round_double (d * 100) - d * 100\<bar> \<le> pow2 (- 46)"
    using round_double_close [OF y0 y1] by simp
  have eq: "float_mul (int_truediv f t) (float_of_int 100) = Double False (round_double (d * 100))"
    using assms x0
    by (simp add: int_truediv_def float_of_int_def round_double_100 d_def x_def abs_of_nonneg)
  have "\<bar>round_double (d * 100) - x * 100\<bar> \<le> 1 / 2 ^ 46 + 100 * (1 / 2 ^ 53)"
    using dy dx unfolding p53 p46 by linarith
  also have "\<dots> \<le> 1 / 2 ^ 45" by simp
  finally show ?thesis
    unfolding eq x_def by blast
qed

text \<open>
  The percentage of the spec's own counterpart on doubles: 23 rows of 160 are 14.375
  percent, the double computation gives a value just below it, and the report prints
  14.37.
\<close>

lemma percent_23_of_160:
  "format_2f_double (float_mul (int_truediv 23 160) (float_of_int 100)) = ''14.37''"
  by code_simp

text \<open>
  C9, as the code has it. For a complete set of facts with \<^verbatim>\<open>total_rows\<close> not 0 (and a
  quotient within the range of a double), the report is the fixed text with the fields in
  their places: the two row counts, the filter percentage, the two percentiles, the
  outlier count alone, directly followed by the caption of the cleaned row count, that
  count, and the two lists of days. The filter percentage is
  \<^verbatim>\<open>(filtered_rows/total_rows)*100\<close> computed on doubles; for the counts of a run,
  \<open>0 \<le> filtered_rows \<le> total_rows\<close>, it differs from the exact
  \<open>filtered_rows / total_rows * 100\<close> by at most \<open>1 / 2 ^ 45\<close>. The percentage, the
  percentiles and the daily means are printed with two digits after the point, the value
  of the double rounded to the nearest hundredth. The report has no outlier percentage.
\<close>

theorem render_report_complete:
  assumes "total_rows x = Some t" "filtered_rows x = Some f" "outliers_removed x = Some k"
    "p5 x = Some a" "p95 x = Some b" "cleaned_rows x = Some c"
    "hottest_days x = Some hot" "coldest_days x = Some cold" "t \<noteq> 0"
    "\<bar>f\<bar> < 2 ^ 1000 * \<bar>t\<bar>"
  shows "render_report now x =
     Inr (lit_header @ now
        @ lit_total @ str_int t
        @ lit_filtered @ str_int f
        @ lit_percent @ format_2f_double (float_mul (int_truediv f t) (float_of_int 100))
        @ lit_p5 @ format_2f a
        @ lit_p95 @ format_2f b
        @ lit_outliers @ str_int k
        @ lit_cleaned @ str_int c
        @ lit_hottest @ day_lines hot
        @ lit_coldest @ day_lines cold
        @ lit_saved @ HOT_DAYS_PATH
        @ lit_sep @ COLD_DAYS_PATH
        @ lit_footer)
   \<and> (0 \<le> f \<and> f \<le> t \<longrightarrow>
        (\<exists>m. float_mul (int_truediv f t) (float_of_int 100) = Double False m
           \<and> \<bar>m - of_int f / of_int t * 100\<bar> \<le> 1 / 2 ^ 45))
   \<and> (\<forall>y. \<exists>n. 0 \<le> n \<and> \<bar>of_int n - \<bar>y\<bar> * 100\<bar> \<le> 1 / 2
         \<and> format_2f y = (if y < 0 then ''-'' else []) @ show_nat (n div 100) @ ''.''
              @ [digit_char (n mod 100 div 10), digit_char (n mod 10)])"
proof -
  have fmt: "\<exists>n. 0 \<le> n \<and> \<bar>of_int n - \<bar>y\<bar> * 100\<bar> \<le> 1 / 2
         \<and> format_2f y = (if y < 0 then ''-'' else []) @ show_nat (n div 100) @ ''.''
              @ [digit_char (n mod 100 div 10), digit_char (n mod 10)]" for y
    using round_half_even_close [of "\<bar>y\<bar> * 100"]
    by (intro exI [of _ "round_half_even (\<bar>y\<bar> * 100)"]) (simp add: format_2f_def Let_def)
  have pct: "0 \<le> f \<and> f \<le> t \<longrightarrow>
        (\<exists>m. float_mul (int_truediv f t) (float_of_int 100) = Double False m
           \<and> \<bar>m - of_int f / of_int t * 100\<bar> \<le> 1 / 2 ^ 45)"
    using percent_close [of f t] assms(9) by auto
  have report: "render_report now x =
     Inr (lit_header @ now
        @ lit_total @ str_int t
        @ lit_filtered @ str_int f
        @ lit_percent @ format_2f_double (float_mul (int_truediv f t) (float_of_int 100))
        @ lit_p5 @ format_2f a
        @ lit_p95 @ format_2f b
        @ lit_outliers @ str_int k
        @ lit_cleaned @ str_int c
        @ lit_hottest @ day_lines hot
        @ lit_coldest @ day_lines cold
        @ lit_saved @ HOT_DAYS_PATH
        @ lit_sep @ COLD_DAYS_PATH
        @ lit_footer)"
    using render_report_Inr [OF assms(1,2,4,5,7,8,9), of now] assms(3,6)
    by (simp add: str_int_option_def)
  show ?thesis
    using report pct fmt by blast
qed

theorem render_report_complete_witness:
  "\<not> isl (render_report example_now example_xcom)
   \<and> contains (lit_percent @ ''75.00%'') (projr (render_report example_now example_xcom))
   \<and> contains (lit_outliers @ ''2'' @ lit_cleaned @ ''4'')
        (projr (render_report example_now example_xcom))
   \<and> (\<exists>m. float_mul (int_truediv 6 8) (float_of_int 100) = Double False m
         \<and> \<bar>m - 75\<bar> \<le> 1 / 2 ^ 45)"
proof -
  have "(1::int) \<le> 2 ^ 1000"
    by (rule one_le_power) simp
  then have bound: "\<bar>6::int\<bar> < 2 ^ 1000 * \<bar>8\<bar>"
    by simp
  have facts: "total_rows example_xcom = Some 8" "filtered_rows example_xcom = Some 6"
    "outliers_removed example_xcom = Some 2" "p5 example_xcom = Some (25 / 2)"
    "p95 example_xcom = Some 36" "cleaned_rows example_xcom = Some 4"
    by (simp_all add: example_xcom_def)
  obtain hot cold where days: "hottest_days example_xcom = Some hot"
    "coldest_days example_xcom = Some cold"
    by (simp add: example_xcom_def)
  have eight: "(8::int) \<noteq> 0" by simp
  note inst = render_report_complete [OF facts days eight bound, of example_now]
  have "\<not> isl (render_report example_now example_xcom)"
    using inst by simp
  moreover have "\<exists>m. float_mul (int_truediv 6 8) (float_of_int 100) = Double False m
         \<and> \<bar>m - 75\<bar> \<le> 1 / 2 ^ 45"
    using inst by simp
  moreover have "contains (lit_percent @ ''75.00%'')
      (projr (render_report example_now example_xcom))"
    by code_simp
  moreover have "contains (lit_outliers @ ''2'' @ lit_cleaned @ ''4'')
      (projr (render_report example_now example_xcom))"
    by code_simp
  ultimately show ?thesis by blast
qed

text \<open>
  C9 as stated fails: for the facts of the example run, 2 outliers of 6 filtered rows, the
  outlier percentage would print as 33.33, and the report does not contain that text.
\<close>

theorem render_report_no_outlier_percentage:
  "\<not> isl (render_report example_now example_xcom)
   \<and> format_2f_double (float_mul (int_truediv 2 6) (float_of_int 100)) = ''33.33''
   \<and> \<not> contains ''33.33'' (projr (render_report example_now example_xcom))"
  by code_simp

end
